theory Spec2Isabelle
  imports Main "HOL-Library.AList"
begin

section \<open>JavaScript values and plain objects\<close>

text \<open>
  Session data is a plain JavaScript object whose values are \<^verbatim>\<open>unknown\<close>. A value is
  \<^verbatim>\<open>undefined\<close>, \<^verbatim>\<open>null\<close>, a boolean, a number, a string, a plain object (its own
  properties, in insertion order), or a built-in inherited from \<^verbatim>\<open>Object.prototype\<close>,
  known by its property name. The numbers are the integers (\<open>JNum\<close>, meant within the safe
  range of \<open>2^53 - 1\<close>; \<^verbatim>\<open>-0\<close> is 0), \<^verbatim>\<open>NaN\<close> and the two infinities (\<open>JInfinity True\<close> is the
  positive one); fractions are not represented, nor are arrays. Every object has the
  prototype \<^verbatim>\<open>Object.prototype\<close>: changing a prototype is outside the model.
\<close>

datatype jsval =
    JUndefined
  | JNull
  | JBool bool
  | JNum int
  | JNaN
  | JInfinity bool
  | JStr string
  | JObj "(string \<times> jsval) list"
  | JNative string

type_synonym jsobj = "(string \<times> jsval) list"

text \<open>The thrown errors the model tracks.\<close>

datatype error = TypeError | RangeError

text \<open>ToBoolean, as \<^verbatim>\<open>!x\<close> and \<^verbatim>\<open>x ? a : b\<close> apply it.\<close>

fun truthy :: "jsval \<Rightarrow> bool" where
  "truthy JUndefined = False"
| "truthy JNull = False"
| "truthy (JBool b) = b"
| "truthy (JNum n) = (n \<noteq> 0)"
| "truthy JNaN = False"
| "truthy (JInfinity b) = True"
| "truthy (JStr s) = (s \<noteq> [])"
| "truthy (JObj ps) = True"
| "truthy (JNative n) = True"

text \<open>The property names every plain object inherits from \<^verbatim>\<open>Object.prototype\<close>.\<close>

definition Object_prototype :: "string list" where
  "Object_prototype =
     [''constructor'', ''__proto__'', ''hasOwnProperty'', ''isPrototypeOf'',
      ''propertyIsEnumerable'', ''toLocaleString'', ''toString'', ''valueOf'',
      ''__defineGetter__'', ''__defineSetter__'', ''__lookupGetter__'', ''__lookupSetter__'']"

text \<open>\<^verbatim>\<open>key in obj\<close>: an own property or an inherited one.\<close>

definition js_in :: "string \<Rightarrow> jsobj \<Rightarrow> bool" where
  "js_in key obj = (map_of obj key \<noteq> None \<or> key \<in> set Object_prototype)"

text \<open>\<^verbatim>\<open>obj[key]\<close>: the own property, else the inherited built-in, else \<^verbatim>\<open>undefined\<close>.\<close>

definition js_get :: "jsobj \<Rightarrow> string \<Rightarrow> jsval" where
  "js_get obj key =
     (case map_of obj key of
        Some v \<Rightarrow> v
      | None \<Rightarrow> if key \<in> set Object_prototype then JNative key else JUndefined)"

text \<open>
  \<^verbatim>\<open>obj[key] = value\<close>: an existing own property keeps its place, a new one is appended.
  Assigning to \<^verbatim>\<open>__proto__\<close> runs the inherited setter and creates no own property.
\<close>

definition js_put :: "string \<Rightarrow> jsval \<Rightarrow> jsobj \<Rightarrow> jsobj" where
  "js_put key v obj = (if key = ''__proto__'' then obj else AList.update key v obj)"

text \<open>\<^verbatim>\<open>delete obj[key]\<close>: removes the own property, if there is one.\<close>

definition js_delete :: "string \<Rightarrow> jsobj \<Rightarrow> jsobj" where
  "js_delete key obj = AList.delete key obj"

section \<open>The Session entity (Session.ts)\<close>

text \<open>
  \<^verbatim>\<open>class Session { sid: string; private data: SessionData }\<close>. The reserved fields
  \<^verbatim>\<open>_flash\<close>, \<^verbatim>\<open>_accessed\<close>, \<^verbatim>\<open>_expire\<close>, \<^verbatim>\<open>_delete\<close> are ordinary properties of the data
  object, as the index signature of \<^verbatim>\<open>SessionData\<close> has them.
\<close>

record Session =
  sid :: string
  data :: jsobj

text \<open>
  \<^verbatim>\<open>get(key)\<close>. When the key is not in the data, \<^verbatim>\<open>this.data['_flash'][key]\<close> is read and
  deleted; reading a property of \<^verbatim>\<open>undefined\<close> or \<^verbatim>\<open>null\<close> throws. A \<^verbatim>\<open>_flash\<close> that the
  caller has overwritten with a primitive or a built-in has no own property to give or to
  lose: the read is \<^verbatim>\<open>undefined\<close> (the properties that primitive wrappers and functions
  bring themselves, such as the \<^verbatim>\<open>length\<close> of a string, are not modelled).
\<close>

definition Session_get :: "Session \<Rightarrow> string \<Rightarrow> error + (jsval \<times> Session)" where
  "Session_get s key =
     (if js_in key (data s) then Inr (js_get (data s) key, s)
      else (case js_get (data s) ''_flash'' of
              JObj fl \<Rightarrow>
                Inr (js_get fl key,
                     s\<lparr>data := js_put ''_flash'' (JObj (js_delete key fl)) (data s)\<rparr>)
            | JUndefined \<Rightarrow> Inl TypeError
            | JNull \<Rightarrow> Inl TypeError
            | _ \<Rightarrow> Inr (JUndefined, s)))"

text \<open>\<^verbatim>\<open>set(key, value)\<close>: \<^verbatim>\<open>null\<close> and \<^verbatim>\<open>undefined\<close> delete the key.\<close>

definition Session_set :: "Session \<Rightarrow> string \<Rightarrow> jsval \<Rightarrow> Session" where
  "Session_set s key v =
     (if v = JNull \<or> v = JUndefined then s\<lparr>data := js_delete key (data s)\<rparr>
      else s\<lparr>data := js_put key v (data s)\<rparr>)"

text \<open>
  \<^verbatim>\<open>flash(key, value)\<close>: \<^verbatim>\<open>this.data['_flash'][key] = value\<close>. The module is strict code, so
  the assignment throws unless \<^verbatim>\<open>_flash\<close> is an object. A built-in takes the property,
  which the model does not keep.
\<close>

definition Session_flash :: "Session \<Rightarrow> string \<Rightarrow> jsval \<Rightarrow> error + Session" where
  "Session_flash s key v =
     (case js_get (data s) ''_flash'' of
        JObj fl \<Rightarrow> Inr (s\<lparr>data := js_put ''_flash'' (JObj (js_put key v fl)) (data s)\<rparr>)
      | JNative n \<Rightarrow> Inr s
      | _ \<Rightarrow> Inl TypeError)"

text \<open>
  \<^verbatim>\<open>has(key)\<close>: \<^verbatim>\<open>key in this.data || key in this.data['_flash']\<close>; the right operand of
  \<^verbatim>\<open>in\<close> must be an object, or the operator throws. The properties of a built-in are not
  modelled.
\<close>

definition Session_has :: "Session \<Rightarrow> string \<Rightarrow> error + bool" where
  "Session_has s key =
     (if js_in key (data s) then Inr True
      else (case js_get (data s) ''_flash'' of
              JObj fl \<Rightarrow> Inr (js_in key fl)
            | JNative n \<Rightarrow> Inr False
            | _ \<Rightarrow> Inl TypeError))"

text \<open>\<^verbatim>\<open>deleteSession()\<close>: \<^verbatim>\<open>this.data._delete = true\<close>.\<close>

definition Session_deleteSession :: "Session \<Rightarrow> Session" where
  "Session_deleteSession s = s\<lparr>data := js_put ''_delete'' (JBool True) (data s)\<rparr>"

section \<open>The JSON built-ins\<close>

text \<open>
  \<^verbatim>\<open>JSON.stringify\<close> and \<^verbatim>\<open>JSON.parse\<close> belong to the language, not to the repository. They
  are written out here after ECMA-262, on the values of the model, so that what the cookie
  store does to session data can be computed. A string is a list of code units below 256.
\<close>

definition hex_digit :: "nat \<Rightarrow> char" where
  "hex_digit n = (if n < 10 then char_of (48 + n) else char_of (87 + n))"

definition hex_value :: "char \<Rightarrow> nat option" where
  "hex_value c =
     (let n = (of_char c :: nat)
      in if 48 \<le> n \<and> n \<le> 57 then Some (n - 48)
         else if 97 \<le> n \<and> n \<le> 102 then Some (n - 87)
         else if 65 \<le> n \<and> n \<le> 70 then Some (n - 55)
         else None)"

text \<open>
  QuoteJSONString: the quotation mark (0x22), the backslash (0x5C) and the five control
  characters with a short form are escaped with a backslash, every other code unit below
  0x20 as \<^verbatim>\<open>\u00XX\<close>, and the rest stands for itself.
\<close>

definition quote_char :: "char \<Rightarrow> string" where
  "quote_char c =
     (if c = CHR 0x08 then [CHR 0x5C, CHR ''b'']
      else if c = CHR 0x09 then [CHR 0x5C, CHR ''t'']
      else if c = CHR 0x0A then [CHR 0x5C, CHR ''n'']
      else if c = CHR 0x0C then [CHR 0x5C, CHR ''f'']
      else if c = CHR 0x0D then [CHR 0x5C, CHR ''r'']
      else if c = CHR 0x22 then [CHR 0x5C, CHR 0x22]
      else if c = CHR 0x5C then [CHR 0x5C, CHR 0x5C]
      else if (of_char c :: nat) < 32
        then [CHR 0x5C, CHR ''u'', CHR ''0'', CHR ''0'',
              hex_digit ((of_char c :: nat) div 16), hex_digit ((of_char c :: nat) mod 16)]
      else [c])"

definition QuoteJSONString :: "string \<Rightarrow> string" where
  "QuoteJSONString s = CHR 0x22 # concat (map quote_char s) @ [CHR 0x22]"

text \<open>Number::toString on an integer in the safe range: its decimal digits.\<close>

fun digits_of :: "nat \<Rightarrow> string" where
  "digits_of n =
     (if n < 10 then [char_of (48 + n)]
      else digits_of (n div 10) @ [char_of (48 + n mod 10)])"

definition Number_toString :: "int \<Rightarrow> string" where
  "Number_toString n = (if n < 0 then CHR ''-'' # digits_of (nat (- n)) else digits_of (nat n))"

definition join_commas :: "string list \<Rightarrow> string" where
  "join_commas ms = (case ms of [] \<Rightarrow> [] | m # rest \<Rightarrow> m @ concat (map (\<lambda>x. CHR '','' # x) rest))"

text \<open>
  SerializeJSONProperty, \<open>None\<close> for \<^verbatim>\<open>undefined\<close>: \<^verbatim>\<open>NaN\<close> and the infinities are written as
  \<^verbatim>\<open>null\<close>; a property whose value is \<^verbatim>\<open>undefined\<close> or a function is left out of its object.
  Of the built-ins only \<^verbatim>\<open>Object.prototype\<close> itself (the value of \<^verbatim>\<open>__proto__\<close>) is an object,
  one without enumerable properties.
\<close>

fun SerializeJSONProperty :: "jsval \<Rightarrow> string option"
  and SerializeJSONMembers :: "jsobj \<Rightarrow> string list" where
  "SerializeJSONProperty JUndefined = None"
| "SerializeJSONProperty JNull = Some ''null''"
| "SerializeJSONProperty (JBool b) = Some (if b then ''true'' else ''false'')"
| "SerializeJSONProperty (JNum n) = Some (Number_toString n)"
| "SerializeJSONProperty JNaN = Some ''null''"
| "SerializeJSONProperty (JInfinity b) = Some ''null''"
| "SerializeJSONProperty (JStr s) = Some (QuoteJSONString s)"
| "SerializeJSONProperty (JObj ps) =
     Some (CHR ''{'' # join_commas (SerializeJSONMembers ps) @ ''}'')"
| "SerializeJSONProperty (JNative n) = (if n = ''__proto__'' then Some ''{}'' else None)"
| "SerializeJSONMembers [] = []"
| "SerializeJSONMembers (p # ps) =
     (case SerializeJSONProperty (snd p) of
        None \<Rightarrow> SerializeJSONMembers ps
      | Some t \<Rightarrow> (QuoteJSONString (fst p) @ CHR '':'' # t) # SerializeJSONMembers ps)"

text \<open>\<^verbatim>\<open>JSON.stringify(data)\<close> for an object, which session data always is.\<close>

definition JSON_stringify :: "jsobj \<Rightarrow> string" where
  "JSON_stringify d = CHR ''{'' # join_commas (SerializeJSONMembers d) @ ''}''"

text \<open>
  \<^verbatim>\<open>JSON.parse\<close>, \<open>None\<close> when it throws. White space is skipped between tokens. The parser
  reads what the model has values for: it refuses an array, a number with a fraction or an
  exponent and an escape above \<^verbatim>\<open>\u00ff\<close>, which the built-in accepts. A key that comes
  twice keeps its place and takes the later value.
\<close>

definition is_ws :: "char \<Rightarrow> bool" where
  "is_ws c = (c = CHR 0x20 \<or> c = CHR 0x09 \<or> c = CHR 0x0A \<or> c = CHR 0x0D)"

definition skip_ws :: "string \<Rightarrow> string" where
  "skip_ws cs = dropWhile is_ws cs"

definition is_digit :: "char \<Rightarrow> bool" where
  "is_digit c = (48 \<le> (of_char c :: nat) \<and> (of_char c :: nat) \<le> 57)"

definition unescape :: "char \<Rightarrow> char option" where
  "unescape x =
     (if x = CHR 0x22 then Some (CHR 0x22)
      else if x = CHR 0x5C then Some (CHR 0x5C)
      else if x = CHR ''/'' then Some (CHR ''/'')
      else if x = CHR ''b'' then Some (CHR 0x08)
      else if x = CHR ''f'' then Some (CHR 0x0C)
      else if x = CHR ''n'' then Some (CHR 0x0A)
      else if x = CHR ''r'' then Some (CHR 0x0D)
      else if x = CHR ''t'' then Some (CHR 0x09)
      else None)"

definition hex4 :: "char \<Rightarrow> char \<Rightarrow> char \<Rightarrow> char \<Rightarrow> nat option" where
  "hex4 a b c d =
     (case (hex_value a, hex_value b, hex_value c, hex_value d) of
        (Some h3, Some h2, Some h1, Some h0) \<Rightarrow> Some (((h3 * 16 + h2) * 16 + h1) * 16 + h0)
      | _ \<Rightarrow> None)"

text \<open>The characters of a string literal, after its opening quotation mark.\<close>

fun parse_chars :: "string \<Rightarrow> string \<Rightarrow> (string \<times> string) option" where
  "parse_chars [] acc = None"
| "parse_chars (c # cs) acc =
     (if c = CHR 0x22 then Some (rev acc, cs)
      else if c = CHR 0x5C then
        (case cs of
           [] \<Rightarrow> None
         | x # r \<Rightarrow>
             if x = CHR ''u'' then
               (case r of
                  h3 # h2 # h1 # h0 # r' \<Rightarrow>
                    (case hex4 h3 h2 h1 h0 of
                       None \<Rightarrow> None
                     | Some n \<Rightarrow> if n < 256 then parse_chars r' (char_of n # acc) else None)
                | _ \<Rightarrow> None)
             else (case unescape x of
                     None \<Rightarrow> None
                   | Some y \<Rightarrow> parse_chars r (y # acc)))
      else if (of_char c :: nat) < 32 then None
      else parse_chars cs (c # acc))"

definition digits_value :: "string \<Rightarrow> nat" where
  "digits_value ds = foldl (\<lambda>acc c. acc * 10 + ((of_char c :: nat) - 48)) 0 ds"

text \<open>The digits of a number literal: no leading zero before another digit.\<close>

definition parse_nat :: "string \<Rightarrow> (nat \<times> string) option" where
  "parse_nat cs =
     (let ds = takeWhile is_digit cs; r = dropWhile is_digit cs
      in if ds = [] then None
         else if hd ds = CHR ''0'' \<and> tl ds \<noteq> [] then None
         else (case r of
                 [] \<Rightarrow> Some (digits_value ds, r)
               | x # _ \<Rightarrow>
                   if x = CHR ''.'' \<or> x = CHR ''e'' \<or> x = CHR ''E'' then None
                   else Some (digits_value ds, r)))"

text \<open>
  A value and the members of an object, each with the text left over. The first argument
  bounds the depth of the recursion; \<open>JSON_parse\<close> starts with more than the text is long,
  which no text uses up.
\<close>

fun parse_value :: "nat \<Rightarrow> string \<Rightarrow> (jsval \<times> string) option"
  and parse_members :: "nat \<Rightarrow> string \<Rightarrow> jsobj \<Rightarrow> (jsobj \<times> string) option" where
  "parse_value 0 cs = None"
| "parse_value (Suc n) cs =
     (case skip_ws cs of
        [] \<Rightarrow> None
      | c # r \<Rightarrow>
          if c = CHR ''n'' then (if take 3 r = ''ull'' then Some (JNull, drop 3 r) else None)
          else if c = CHR ''t'' then (if take 3 r = ''rue'' then Some (JBool True, drop 3 r) else None)
          else if c = CHR ''f'' then (if take 4 r = ''alse'' then Some (JBool False, drop 4 r) else None)
          else if c = CHR 0x22 then
            (case parse_chars r [] of
               None \<Rightarrow> None
             | Some (s, r') \<Rightarrow> Some (JStr s, r'))
          else if c = CHR ''{'' then
            (case skip_ws r of
               [] \<Rightarrow> None
             | x # r' \<Rightarrow>
                 if x = CHR ''}'' then Some (JObj [], r')
                 else (case parse_members n r [] of
                         None \<Rightarrow> None
                       | Some (ps, r'') \<Rightarrow> Some (JObj ps, r'')))
          else if c = CHR ''-'' then
            (case parse_nat r of
               None \<Rightarrow> None
             | Some (m, r') \<Rightarrow> Some (JNum (- int m), r'))
          else if is_digit c then
            (case parse_nat (c # r) of
               None \<Rightarrow> None
             | Some (m, r') \<Rightarrow> Some (JNum (int m), r'))
          else None)"
| "parse_members 0 cs acc = None"
| "parse_members (Suc n) cs acc =
     (case skip_ws cs of
        [] \<Rightarrow> None
      | c # r \<Rightarrow>
          if c = CHR 0x22 then
            (case parse_chars r [] of
               None \<Rightarrow> None
             | Some (k, r1) \<Rightarrow>
                 (case skip_ws r1 of
                    [] \<Rightarrow> None
                  | c1 # r2 \<Rightarrow>
                      if c1 = CHR '':'' then
                        (case parse_value n r2 of
                           None \<Rightarrow> None
                         | Some (v, r3) \<Rightarrow>
                             (case skip_ws r3 of
                                [] \<Rightarrow> None
                              | c3 # r4 \<Rightarrow>
                                  if c3 = CHR '','' then parse_members n r4 (AList.update k v acc)
                                  else if c3 = CHR ''}'' then Some (AList.update k v acc, r4)
                                  else None))
                      else None))
          else None)"

definition JSON_parse :: "string \<Rightarrow> jsval option" where
  "JSON_parse text =
     (case parse_value (Suc (length text)) text of
        None \<Rightarrow> None
      | Some (v, r) \<Rightarrow> if skip_ws r = [] then Some v else None)"

text \<open>
  The data the round trip is stated for: built from \<^verbatim>\<open>null\<close>, booleans, integers in the safe
  range, strings and objects whose keys are distinct, as the keys of an object are.
\<close>

fun json_safe :: "jsval \<Rightarrow> bool" and json_safe_members :: "jsobj \<Rightarrow> bool" where
  "json_safe JUndefined = False"
| "json_safe JNull = True"
| "json_safe (JBool b) = True"
| "json_safe (JNum n) = (\<bar>n\<bar> \<le> 9007199254740991)"
| "json_safe JNaN = False"
| "json_safe (JInfinity b) = False"
| "json_safe (JStr s) = True"
| "json_safe (JObj ps) = (distinct (map fst ps) \<and> json_safe_members ps)"
| "json_safe (JNative n) = False"
| "json_safe_members [] = True"
| "json_safe_members (p # ps) = (json_safe (snd p) \<and> json_safe_members ps)"

text \<open>What follows a value inside a text: nothing, a comma or a closing brace.\<close>

definition ends_value :: "string \<Rightarrow> bool" where
  "ends_value rest = (rest = [] \<or> hd rest = CHR '','' \<or> hd rest = CHR ''}'')"

section \<open>The environment of the handlers\<close>

text \<open>
  What the handlers call and do not define: the clock (\<^verbatim>\<open>Date.now()\<close>, \<^verbatim>\<open>new Date()\<close>), the
  identifier generator \<^verbatim>\<open>nanoid\<close>, the date conversions and the cipher of \<^verbatim>\<open>crypto.ts\<close>. They
  are parameters. The clock and the generator are read by position: the n-th reading of the
  clock is \<open>clock e n\<close>, a time value in milliseconds, with no assumption on how the
  readings are ordered or spaced. \<open>None\<close> stands for NaN in \<open>Date_parse\<close> and for a thrown
  exception in \<open>decryptCryptoJSAES\<close>.
\<close>

record env =
  clock :: "nat \<Rightarrow> int"
  nanoid :: "nat \<Rightarrow> string"
  toISOString :: "int \<Rightarrow> string"
  Date_parse :: "string \<Rightarrow> int option"
  encryptCryptoJSAES :: "string \<Rightarrow> string \<Rightarrow> string"
  decryptCryptoJSAES :: "string \<Rightarrow> string \<Rightarrow> string option"

text \<open>The writes a handler performs, in order.\<close>

datatype event =
    StoreCreate string jsobj
  | StorePersist string jsobj
  | StoreDelete string
  | CookieSet string string
  | CookieDelete string

text \<open>
  The state around a handler call: the entries of the keyed store, the cookies behind the
  cookie accessor, how often the clock and the generator have been read, and the writes
  so far.
\<close>

record world =
  keyed :: "string \<rightharpoonup> jsobj"
  cookies :: "string \<rightharpoonup> string"
  ticks :: nat
  minted :: nat
  trace :: "event list"

text \<open>
  What a call that may throw gives: the error with the state at the throw (what was
  written before it stays written), or the value with the state at the return.
\<close>

type_synonym 'a result = "(error \<times> world) + ('a \<times> world)"

definition Date_now :: "env \<Rightarrow> world \<Rightarrow> int \<times> world" where
  "Date_now e w = (clock e (ticks w), w\<lparr>ticks := Suc (ticks w)\<rparr>)"

definition nanoid_next :: "env \<Rightarrow> world \<Rightarrow> string \<times> world" where
  "nanoid_next e w = (nanoid e (minted w), w\<lparr>minted := Suc (minted w)\<rparr>)"

text \<open>
  \<^verbatim>\<open>new Date(t).toISOString()\<close> for a number \<open>t\<close>: the constructor keeps a time within
  8.64e15 ms of the epoch and makes any other an invalid date, on which \<^verbatim>\<open>toISOString\<close>
  throws a RangeError. (\<^verbatim>\<open>new Date()\<close> holds the clock's reading, a time value, and its
  \<^verbatim>\<open>toISOString()\<close> does not throw.)
\<close>

definition Date_toISOString :: "env \<Rightarrow> int \<Rightarrow> error + string" where
  "Date_toISOString e t =
     (if \<bar>t\<bar> \<le> 8640000000000000 then Inr (toISOString e t) else Inl RangeError)"

text \<open>
  \<^verbatim>\<open>new Date(x).getTime()\<close>, \<open>None\<close> for NaN: a string is parsed, a number is the time
  value itself when it is in the range of dates, a boolean and \<^verbatim>\<open>null\<close> convert to a number;
  \<^verbatim>\<open>undefined\<close> is no date, and an object converts to a string that is none.
\<close>

definition Date_getTime :: "env \<Rightarrow> jsval \<Rightarrow> int option" where
  "Date_getTime e x =
     (case x of
        JStr s \<Rightarrow> Date_parse e s
      | JNum n \<Rightarrow> if \<bar>n\<bar> \<le> 8640000000000000 then Some n else None
      | JBool b \<Rightarrow> Some (if b then 1 else 0)
      | JNull \<Rightarrow> Some 0
      | _ \<Rightarrow> None)"

subsection \<open>The cookie accessor\<close>

text \<open>
  Modelled from the spec: the cookie accessor is supplied by the host framework; the spec
  gives it as a capability to read, write and delete named values. The transport options
  are left out.
\<close>

definition cookies_get :: "string \<Rightarrow> world \<Rightarrow> string option" where
  "cookies_get name w = cookies w name"

definition cookies_set :: "string \<Rightarrow> string \<Rightarrow> world \<Rightarrow> world" where
  "cookies_set name v w =
     w\<lparr>cookies := (cookies w)(name \<mapsto> v), trace := trace w @ [CookieSet name v]\<rparr>"

definition cookies_delete :: "string \<Rightarrow> world \<Rightarrow> world" where
  "cookies_delete name w =
     w\<lparr>cookies := (cookies w)(name := None), trace := trace w @ [CookieDelete name]\<rparr>"

subsection \<open>The keyed store (Store.ts, MemoryStore.ts)\<close>

text \<open>
  Modelled from the spec: the Store interface and the in-memory store are not among the
  sources. The spec's contract: \<^verbatim>\<open>createSession\<close> stores the data under the identifier,
  \<^verbatim>\<open>getSessionById\<close> returns the stored data or nothing, \<^verbatim>\<open>persistSessionData\<close> replaces the
  stored value, \<^verbatim>\<open>deleteSession\<close> removes the entry and accepts a missing one. The store
  holds values: what a session does to its data reaches the store only by a write.
\<close>

definition Store_createSession :: "string \<Rightarrow> jsobj \<Rightarrow> world \<Rightarrow> world" where
  "Store_createSession sessionId d w =
     w\<lparr>keyed := (keyed w)(sessionId \<mapsto> d), trace := trace w @ [StoreCreate sessionId d]\<rparr>"

definition Store_getSessionById :: "string \<Rightarrow> world \<Rightarrow> jsobj option" where
  "Store_getSessionById sessionId w = keyed w sessionId"

definition Store_persistSessionData :: "string \<Rightarrow> jsobj \<Rightarrow> world \<Rightarrow> world" where
  "Store_persistSessionData sessionId d w =
     w\<lparr>keyed := (keyed w)(sessionId \<mapsto> d), trace := trace w @ [StorePersist sessionId d]\<rparr>"

definition Store_deleteSession :: "string \<Rightarrow> world \<Rightarrow> world" where
  "Store_deleteSession sessionId w =
     w\<lparr>keyed := (keyed w)(sessionId := None), trace := trace w @ [StoreDelete sessionId]\<rparr>"

subsection \<open>The cookie store (stores/CookieStore.ts)\<close>

text \<open>
  \<^verbatim>\<open>store: Store | CookieStore\<close>. A cookie store carries its encryption key and the name of
  its payload cookie (\<^verbatim>\<open>session_data\<close> unless configured).
\<close>

datatype store =
    Store
  | is_CookieStore: CookieStore (encryptionKey: string) (sessionDataCookieName: string)

text \<open>
  \<^verbatim>\<open>getSessionFromCookie(cookies)\<close>: \<^verbatim>\<open>null\<close> when the cookie is missing or empty, and when
  decrypting or parsing throws; otherwise whatever \<^verbatim>\<open>JSON.parse\<close> returns.
\<close>

definition CookieStore_getSessionFromCookie :: "env \<Rightarrow> string \<Rightarrow> string \<Rightarrow> world \<Rightarrow> jsval" where
  "CookieStore_getSessionFromCookie e key cname w =
     (case cookies_get cname w of
        None \<Rightarrow> JNull
      | Some sessionDataString \<Rightarrow>
          if sessionDataString = [] then JNull
          else (case decryptCryptoJSAES e sessionDataString key of
                  None \<Rightarrow> JNull
                | Some decryptedCookie \<Rightarrow>
                    (case JSON_parse decryptedCookie of
                       None \<Rightarrow> JNull
                     | Some v \<Rightarrow> v)))"

definition CookieStore_createSession :: "env \<Rightarrow> string \<Rightarrow> string \<Rightarrow> jsobj \<Rightarrow> world \<Rightarrow> world" where
  "CookieStore_createSession e key cname initialData w =
     cookies_set cname (encryptCryptoJSAES e (JSON_stringify initialData) key) w"

definition CookieStore_deleteSession :: "string \<Rightarrow> world \<Rightarrow> world" where
  "CookieStore_deleteSession cname w = cookies_delete cname w"

definition CookieStore_persistSessionData :: "env \<Rightarrow> string \<Rightarrow> string \<Rightarrow> jsobj \<Rightarrow> world \<Rightarrow> world" where
  "CookieStore_persistSessionData e key cname d w =
     cookies_set cname (encryptCryptoJSAES e (JSON_stringify d) key) w"

section \<open>The session handlers (Session.initSessionsHandlers)\<close>

text \<open>
  \<^verbatim>\<open>SessionOptions\<close>: \<open>None\<close> is \<^verbatim>\<open>expireAfterSeconds = null\<close>. The cookie options are left
  out with the transport.
\<close>

record SessionOptions =
  expireAfterSeconds :: "int option"
  sessionCookieName :: string

text \<open>
  \<^verbatim>\<open>sessionValid(sessionData)\<close>:
  \<^verbatim>\<open>sessionData._expire == null || Date.now() < new Date(sessionData._expire).getTime()\<close>.
  The clock is read only when \<^verbatim>\<open>_expire\<close> is neither \<^verbatim>\<open>null\<close> nor \<^verbatim>\<open>undefined\<close>; a comparison
  with NaN is false. A value that is no object has no \<^verbatim>\<open>_expire\<close>.
\<close>

definition Session_sessionValid :: "env \<Rightarrow> jsval \<Rightarrow> world \<Rightarrow> bool \<times> world" where
  "Session_sessionValid e sessionData w =
     (let ex = (case sessionData of JObj d \<Rightarrow> js_get d ''_expire'' | _ \<Rightarrow> JUndefined)
      in if ex = JNull \<or> ex = JUndefined then (True, w)
         else (let (now, w') = Date_now e w
               in (case Date_getTime e ex of
                     None \<Rightarrow> (False, w')
                   | Some t \<Rightarrow> (now < t, w'))))"

text \<open>
  \<^verbatim>\<open>expiration ? new Date(Date.now() + expiration * 1000).toISOString() : null\<close>, the
  expression of \<^verbatim>\<open>reupSession\<close> and of \<^verbatim>\<open>createSession\<close>: \<^verbatim>\<open>null\<close>, \<^verbatim>\<open>undefined\<close> and 0 are
  falsy; otherwise the clock is read, and the RangeError of an instant outside the range
  of dates is thrown.
\<close>

definition expire_value :: "env \<Rightarrow> int option \<Rightarrow> world \<Rightarrow> jsval result" where
  "expire_value e expiration w =
     (case expiration of
        None \<Rightarrow> Inr (JNull, w)
      | Some n \<Rightarrow>
          if n = 0 then Inr (JNull, w)
          else (let (now, w') = Date_now e w
                in (case Date_toISOString e (now + n * 1000) of
                      Inl err \<Rightarrow> Inl (err, w')
                    | Inr text \<Rightarrow> Inr (JStr text, w'))))"

definition Session_reupSession :: "env \<Rightarrow> int option \<Rightarrow> Session \<Rightarrow> world \<Rightarrow> Session result" where
  "Session_reupSession e expiration s w =
     (case expire_value e expiration w of
        Inl ew \<Rightarrow> Inl ew
      | Inr (ex, w') \<Rightarrow> Inr (s\<lparr>data := js_put ''_expire'' ex (data s)\<rparr>, w'))"

text \<open>
  The static \<^verbatim>\<open>createSession(store, expiration, defaultData?)\<close>. Without default data the
  clock is read for \<^verbatim>\<open>_accessed\<close> and then for \<^verbatim>\<open>_expire\<close>. A keyed store gets the data under
  a new identifier; a cookie store gets nothing and the identifier is empty.
\<close>

definition Session_createSession ::
  "env \<Rightarrow> store \<Rightarrow> int option \<Rightarrow> jsobj option \<Rightarrow> world \<Rightarrow> Session result" where
  "Session_createSession e st expiration defaultData w =
     (case (case defaultData of
              Some d \<Rightarrow> Inr (d, w)
            | None \<Rightarrow>
                (let (now, wa) = Date_now e w
                 in (case expire_value e expiration wa of
                       Inl ew \<Rightarrow> Inl ew
                     | Inr (ex, wb) \<Rightarrow>
                         Inr ([(''_flash'', JObj []),
                               (''_accessed'', JStr (toISOString e now)),
                               (''_expire'', ex),
                               (''_delete'', JBool False)], wb)))) of
        Inl ew \<Rightarrow> Inl ew
      | Inr (sessionData, w1) \<Rightarrow>
          if \<not> is_CookieStore st
          then (let (newID, w2) = nanoid_next e w1
                in Inr (\<lparr>sid = newID, data = sessionData\<rparr>,
                        Store_createSession newID sessionData w2))
          else Inr (\<lparr>sid = [], data = sessionData\<rparr>, w1))"

text \<open>\<^verbatim>\<open>persistSessionData(store, cookies)\<close>.\<close>

definition Session_persistSessionData :: "env \<Rightarrow> store \<Rightarrow> Session \<Rightarrow> world \<Rightarrow> world" where
  "Session_persistSessionData e st s w =
     (case st of
        CookieStore key cname \<Rightarrow> CookieStore_persistSessionData e key cname (data s) w
      | Store \<Rightarrow> Store_persistSessionData (sid s) (data s) w)"

text \<open>
  The end of \<^verbatim>\<open>fetchSession\<close>, after either branch: stamp \<^verbatim>\<open>_accessed\<close>, set the cookie
  \<^verbatim>\<open>sessionCookieName\<close> to the session's identifier, return the session.
\<close>

definition fetched :: "env \<Rightarrow> SessionOptions \<Rightarrow> Session result \<Rightarrow> Session option result" where
  "fetched e opts r =
     (case r of
        Inl ew \<Rightarrow> Inl ew
      | Inr (s, w) \<Rightarrow>
          (let (now, w1) = Date_now e w;
               s' = Session_set s ''_accessed'' (JStr (toISOString e now))
           in Inr (Some s', cookies_set (sessionCookieName opts) (sid s') w1)))"

text \<open>
  \<^verbatim>\<open>fetchSession(cookies)\<close>. \<open>None\<close> is the \<^verbatim>\<open>null\<close> it returns when there is nothing to load.
  In the cookie branch the payload is what \<^verbatim>\<open>JSON.parse\<close> gave: a truthy value that is no
  object passes \<^verbatim>\<open>sessionValid\<close>, and \<^verbatim>\<open>reupSession\<close> then computes the new \<^verbatim>\<open>_expire\<close> and
  assigns it to a property of that value, which throws in strict code.
\<close>

definition fetchSession :: "env \<Rightarrow> store \<Rightarrow> SessionOptions \<Rightarrow> world \<Rightarrow> Session option result" where
  "fetchSession e st opts w =
     (case st of
        CookieStore key cname \<Rightarrow>
          (let sessionData = CookieStore_getSessionFromCookie e key cname w
           in if \<not> truthy sessionData then Inr (None, w)
              else (let (valid, w1) = Session_sessionValid e sessionData w
                    in if valid
                       then (case sessionData of
                               JObj d \<Rightarrow>
                                 fetched e opts
                                   (Session_reupSession e (expireAfterSeconds opts)
                                      \<lparr>sid = [], data = d\<rparr> w1)
                             | _ \<Rightarrow>
                                 (case expire_value e (expireAfterSeconds opts) w1 of
                                    Inl ew \<Rightarrow> Inl ew
                                  | Inr (ex, w2) \<Rightarrow> Inl (TypeError, w2)))
                       else fetched e opts
                              (Session_createSession e st (expireAfterSeconds opts) None
                                 (CookieStore_deleteSession cname w1))))
      | Store \<Rightarrow>
          (case cookies_get (sessionCookieName opts) w of
             None \<Rightarrow> Inr (None, w)
           | Some sid0 \<Rightarrow>
               if sid0 = [] then Inr (None, w)
               else (case Store_getSessionById sid0 w of
                       None \<Rightarrow> Inr (None, w)
                     | Some sessionData \<Rightarrow>
                         (let (valid, w1) = Session_sessionValid e (JObj sessionData) w
                          in if valid
                             then fetched e opts
                                    (Session_reupSession e (expireAfterSeconds opts)
                                       \<lparr>sid = sid0, data = sessionData\<rparr> w1)
                             else fetched e opts
                                    (Session_createSession e st (expireAfterSeconds opts) None
                                       (Store_deleteSession sid0 w1))))))"

text \<open>
  \<^verbatim>\<open>storeState(session, cookies, rotate_session_key?)\<close>. The data is persisted before
  \<^verbatim>\<open>_delete\<close> is looked at.
\<close>

definition storeState ::
  "env \<Rightarrow> store \<Rightarrow> SessionOptions \<Rightarrow> Session option \<Rightarrow> bool \<Rightarrow> world \<Rightarrow> (error \<times> world) + world" where
  "storeState e st opts session rotate_session_key w =
     (case session of
        None \<Rightarrow> Inr w
      | Some s0 \<Rightarrow>
          (case (if rotate_session_key \<and> \<not> is_CookieStore st
                 then (case Session_createSession e st (expireAfterSeconds opts)
                              (Some (data s0)) (Store_deleteSession (sid s0) w) of
                         Inl ew \<Rightarrow> Inl ew
                       | Inr (s', w') \<Rightarrow>
                           Inr (s', cookies_set (sessionCookieName opts) (sid s') w'))
                 else Inr (s0, w)) of
             Inl ew \<Rightarrow> Inl ew
           | Inr (s, w1) \<Rightarrow>
               (let w2 = Session_persistSessionData e st s w1
                in Inr (if truthy (js_get (data s) ''_delete'')
                        then (case st of
                                CookieStore key cname \<Rightarrow> CookieStore_deleteSession cname w2
                              | Store \<Rightarrow>
                                  cookies_delete (sessionCookieName opts)
                                    (Store_deleteSession (sid s) w2))
                        else w2))))"

text \<open>The handler \<^verbatim>\<open>createSession(cookies)\<close>.\<close>

definition createSession :: "env \<Rightarrow> store \<Rightarrow> SessionOptions \<Rightarrow> world \<Rightarrow> Session result" where
  "createSession e st opts w =
     (case Session_createSession e st (expireAfterSeconds opts) None w of
        Inl ew \<Rightarrow> Inl ew
      | Inr (s, w1) \<Rightarrow>
          (let (now, w2) = Date_now e w1;
               s' = Session_set s ''_accessed'' (JStr (toISOString e now))
           in Inr (s', if \<not> is_CookieStore st
                       then cookies_set (sessionCookieName opts) (sid s') w2
                       else w2)))"

text \<open>
  The middleware of the README (\<^verbatim>\<open>fetchSession\<close>, the handler, \<^verbatim>\<open>storeState\<close>) run for
  successive requests whose handlers leave the session alone; each request starts from the
  store and the cookies the one before left. The list holds what each \<^verbatim>\<open>fetchSession\<close>
  returned; a thrown error ends the run.
\<close>

fun request_times ::
  "env \<Rightarrow> store \<Rightarrow> SessionOptions \<Rightarrow> nat \<Rightarrow> world \<Rightarrow> (error + Session option) list" where
  "request_times e st opts 0 w = []"
| "request_times e st opts (Suc n) w =
     (case fetchSession e st opts w of
        Inl (err, w') \<Rightarrow> [Inl err]
      | Inr (session, w1) \<Rightarrow>
          (case storeState e st opts session False w1 of
             Inl (err, w') \<Rightarrow> [Inl err]
           | Inr w2 \<Rightarrow> Inr session # request_times e st opts n w2))"

section \<open>Concrete inputs\<close>

text \<open>
  An environment to run the handlers in: a clock that starts at 5 s and advances by one
  second per reading, identifiers \<^verbatim>\<open>id\<close>, \<^verbatim>\<open>id+\<close>, ..., a calendar that knows a few instants
  and a cipher that prefixes the key.
\<close>

definition demo_data :: jsobj where
  "demo_data =
     [(''_flash'', JObj []), (''_accessed'', JNull), (''_expire'', JNull),
      (''_delete'', JBool False), (''email'', JStr ''a@b.com'')]"

definition demo_calendar :: "(int \<times> string) list" where
  "demo_calendar =
     [(1000, ''1970-01-01T00:00:01.000Z''), (5000, ''1970-01-01T00:00:05.000Z''),
      (6000, ''1970-01-01T00:00:06.000Z''), (7000, ''1970-01-01T00:00:07.000Z''),
      (8000, ''1970-01-01T00:00:08.000Z''), (65000, ''1970-01-01T00:01:05.000Z''),
      (66000, ''1970-01-01T00:01:06.000Z''), (67000, ''1970-01-01T00:01:07.000Z'')]"

definition demo_env :: env where
  "demo_env =
     \<lparr>clock = (\<lambda>n. 5000 + 1000 * int n),
      nanoid = (\<lambda>n. ''id'' @ replicate n (CHR ''+'')),
      toISOString =
        (\<lambda>t. case map_of demo_calendar t of Some s \<Rightarrow> s | None \<Rightarrow> ''1970-01-01T00:00:00.000Z''),
      Date_parse = map_of (map (\<lambda>(t, s). (s, t)) demo_calendar),
      encryptCryptoJSAES = (\<lambda>s k. k @ s),
      decryptCryptoJSAES =
        (\<lambda>c k. if take (length k) c = k then Some (drop (length k) c) else None)\<rparr>"


definition demo_opts :: SessionOptions where
  "demo_opts = \<lparr>expireAfterSeconds = Some 60, sessionCookieName = ''session''\<rparr>"

text \<open>Windows of one second, of zero seconds, of 8.64e12 seconds, and none.\<close>

definition short_opts :: SessionOptions where
  "short_opts = \<lparr>expireAfterSeconds = Some 1, sessionCookieName = ''session''\<rparr>"

definition zero_opts :: SessionOptions where
  "zero_opts = \<lparr>expireAfterSeconds = Some 0, sessionCookieName = ''session''\<rparr>"

definition huge_opts :: SessionOptions where
  "huge_opts = \<lparr>expireAfterSeconds = Some 8640000000000, sessionCookieName = ''session''\<rparr>"

definition plain_opts :: SessionOptions where
  "plain_opts = \<lparr>expireAfterSeconds = None, sessionCookieName = ''session''\<rparr>"

definition demo_session :: Session where
  "demo_session = \<lparr>sid = ''old'', data = demo_data\<rparr>"

text \<open>The same session after \<^verbatim>\<open>deleteSession()\<close>.\<close>

definition deleted_session :: Session where
  "deleted_session = Session_deleteSession demo_session"

text \<open>A session that expired at 1 s.\<close>

definition expired_data :: jsobj where
  "expired_data =
     [(''_flash'', JObj [(''message'', JStr ''hi'')]), (''_accessed'', JNull),
      (''_expire'', JStr ''1970-01-01T00:00:01.000Z''), (''_delete'', JBool False)]"

text \<open>A session that expires at 6 s.\<close>

definition live_data :: jsobj where
  "live_data =
     [(''_flash'', JObj []), (''_accessed'', JStr ''1970-01-01T00:00:01.000Z''),
      (''_expire'', JStr ''1970-01-01T00:00:06.000Z''), (''_delete'', JBool False),
      (''email'', JStr ''a@b.com'')]"



text \<open>A keyed store that holds one session, and the request's cookie naming it.\<close>

definition keyed_world :: "jsobj \<Rightarrow> world" where
  "keyed_world d =
     \<lparr>keyed = [''old'' \<mapsto> d], cookies = [''session'' \<mapsto> ''old''],
      ticks = 0, minted = 0, trace = []\<rparr>"

text \<open>A request whose payload cookie holds the given text, and the cookie store reading it.\<close>

definition cookie_world :: "string \<Rightarrow> world" where
  "cookie_world c =
     \<lparr>keyed = Map.empty, cookies = [''session_data'' \<mapsto> c],
      ticks = 0, minted = 0, trace = []\<rparr>"

definition demo_cookie_store :: store where
  "demo_cookie_store = CookieStore ''key'' ''session_data''"

section \<open>Properties of plain objects\<close>

lemma proto_not_flash: "''_flash'' \<notin> set Object_prototype"
  by (simp add: Object_prototype_def)

lemma js_get_own: "map_of obj key = Some v \<Longrightarrow> js_get obj key = v"
  by (simp add: js_get_def)

lemma js_get_JObj_own:
  assumes "js_get obj key = JObj fl"
  shows "map_of obj key = Some (JObj fl)"
  using assms by (auto simp: js_get_def split: option.splits if_splits)

lemma js_get_put_same: "key \<noteq> ''__proto__'' \<Longrightarrow> js_get (js_put key v obj) key = v"
  by (simp add: js_get_def js_put_def update_conv')

lemma js_get_put_other: "k \<noteq> key \<Longrightarrow> js_get (js_put key v obj) k = js_get obj k"
  by (simp add: js_get_def js_put_def update_conv')

lemma js_in_put_other: "k \<noteq> key \<Longrightarrow> js_in k (js_put key v obj) = js_in k obj"
  by (simp add: js_in_def js_put_def update_conv')

lemma js_in_put_same: "key \<noteq> ''__proto__'' \<Longrightarrow> js_in key (js_put key v obj)"
  by (simp add: js_in_def js_put_def update_conv')

lemma js_get_delete_same:
  "key \<notin> set Object_prototype \<Longrightarrow> js_get (js_delete key obj) key = JUndefined"
  by (simp add: js_get_def js_delete_def delete_conv')

lemma js_in_delete_same:
  "key \<notin> set Object_prototype \<Longrightarrow> \<not> js_in key (js_delete key obj)"
  by (simp add: js_in_def js_delete_def delete_conv')

lemma js_get_delete_other: "k \<noteq> key \<Longrightarrow> js_get (js_delete key obj) k = js_get obj k"
  by (simp add: js_get_def js_delete_def delete_conv')

lemma js_in_delete_other: "k \<noteq> key \<Longrightarrow> js_in k (js_delete key obj) = js_in k obj"
  by (simp add: js_in_def js_delete_def delete_conv')

lemma not_js_in_D:
  assumes "\<not> js_in key obj"
  shows "key \<notin> set Object_prototype" and "map_of obj key = None" and "key \<noteq> ''__proto__''"
  using assms by (auto simp: js_in_def Object_prototype_def)

section \<open>Flash values\<close>

lemma Session_flash_obj:
  assumes "js_get (data s) ''_flash'' = JObj fl"
  shows "Session_flash s k v = Inr (s\<lparr>data := js_put ''_flash'' (JObj (js_put k v fl)) (data s)\<rparr>)"
  using assms by (simp add: Session_flash_def)

lemma Session_get_flash:
  assumes "\<not> js_in k (data s)" and "js_get (data s) ''_flash'' = JObj fl"
  shows "Session_get s k =
           Inr (js_get fl k, s\<lparr>data := js_put ''_flash'' (JObj (js_delete k fl)) (data s)\<rparr>)"
  using assms by (simp add: Session_get_def)

lemma Session_has_flash:
  assumes "\<not> js_in k (data s)" and "js_get (data s) ''_flash'' = JObj fl"
  shows "Session_has s k = Inr (js_in k fl)"
  using assms by (simp add: Session_has_def)

lemma flash_slot_put:
  "js_get (data (s\<lparr>data := js_put ''_flash'' v (data s)\<rparr>)) ''_flash'' = v"
  by (simp add: js_get_put_same)

lemma absent_flash_slot_put:
  assumes "\<not> js_in k (data s)" and "js_get (data s) ''_flash'' = JObj fl"
  shows "\<not> js_in k (data (s\<lparr>data := js_put ''_flash'' v (data s)\<rparr>))"
proof -
  from assms(2) have "map_of (data s) ''_flash'' = Some (JObj fl)" by (rule js_get_JObj_own)
  with not_js_in_D(2) [OF assms(1)] have "k \<noteq> ''_flash''" by auto
  with assms(1) show ?thesis by (simp add: js_in_put_other)
qed

lemma demo_message_absent: "\<not> js_in ''message'' (data demo_session)"
  by (simp add: demo_session_def demo_data_def js_in_def Object_prototype_def)

lemma demo_flash_empty: "js_get (data demo_session) ''_flash'' = JObj []"
  by (simp add: demo_session_def demo_data_def js_get_def)

text \<open>
  C5, as the code has it. \<^verbatim>\<open>get\<close> looks in the main mapping first, so the claim holds for
  the keys that are not in it (\<^verbatim>\<open>key in this.data\<close> is false) on a session whose \<^verbatim>\<open>_flash\<close>
  is an object: \<^verbatim>\<open>flash(k, v)\<close> succeeds, the next \<^verbatim>\<open>get(k)\<close> returns \<open>v\<close>, and the
  \<^verbatim>\<open>get(k)\<close> after it returns \<^verbatim>\<open>undefined\<close>.
\<close>

theorem flash_get_once:
  assumes absent: "\<not> js_in k (data s)"
    and fl: "js_get (data s) ''_flash'' = JObj fl"
  shows "\<exists>s1 s2 s3. Session_flash s k v = Inr s1 \<and> Session_get s1 k = Inr (v, s2)
            \<and> Session_get s2 k = Inr (JUndefined, s3)"
proof -
  note ks = not_js_in_D [OF absent]
  let ?s1 = "s\<lparr>data := js_put ''_flash'' (JObj (js_put k v fl)) (data s)\<rparr>"
  let ?s2 = "?s1\<lparr>data := js_put ''_flash'' (JObj (js_delete k (js_put k v fl))) (data ?s1)\<rparr>"
  have f1: "Session_flash s k v = Inr ?s1"
    using fl by (rule Session_flash_obj)
  have a1: "\<not> js_in k (data ?s1)"
    using absent fl by (rule absent_flash_slot_put)
  have g1: "js_get (data ?s1) ''_flash'' = JObj (js_put k v fl)"
    by (rule flash_slot_put)
  have f2: "Session_get ?s1 k = Inr (v, ?s2)"
    using Session_get_flash [OF a1 g1] ks(3) by (simp add: js_get_put_same)
  have a2: "\<not> js_in k (data ?s2)"
    using a1 g1 by (rule absent_flash_slot_put)
  have g2: "js_get (data ?s2) ''_flash'' = JObj (js_delete k (js_put k v fl))"
    by (rule flash_slot_put)
  have f3: "\<exists>s3. Session_get ?s2 k = Inr (JUndefined, s3)"
    using Session_get_flash [OF a2 g2] ks(1) by (simp add: js_get_delete_same)
  from f1 f2 f3 show ?thesis by blast
qed

theorem flash_get_once_witness:
  "\<not> js_in ''message'' (data demo_session)
   \<and> js_get (data demo_session) ''_flash'' = JObj []
   \<and> (\<exists>s1 s2 s3. Session_flash demo_session ''message'' (JStr ''hi'') = Inr s1
         \<and> Session_get s1 ''message'' = Inr (JStr ''hi'', s2)
         \<and> Session_get s2 ''message'' = Inr (JUndefined, s3))"
  using demo_message_absent demo_flash_empty
    flash_get_once [OF demo_message_absent demo_flash_empty, of "JStr ''hi''"]
  by blast

text \<open>
  C5 as stated, for every key, fails: \<^verbatim>\<open>email\<close> is in the main mapping of the session,
  \<^verbatim>\<open>flash('email', 'x')\<close> succeeds, and the \<^verbatim>\<open>get('email')\<close> after it returns the stored
  address, not \<^verbatim>\<open>'x'\<close>, and consumes nothing.
\<close>

theorem flash_get_shadowed:
  "Session_flash demo_session ''email'' (JStr ''x'')
     = Inr (demo_session\<lparr>data := js_put ''_flash'' (JObj [(''email'', JStr ''x'')]) demo_data\<rparr>)
   \<and> Session_get (demo_session\<lparr>data := js_put ''_flash'' (JObj [(''email'', JStr ''x'')]) demo_data\<rparr>)
        ''email''
     = Inr (JStr ''a@b.com'',
            demo_session\<lparr>data := js_put ''_flash'' (JObj [(''email'', JStr ''x'')]) demo_data\<rparr>)"
  by (simp add: demo_session_def demo_data_def Session_flash_def Session_get_def
      js_get_def js_in_def js_put_def)

text \<open>
  C10: for a key that is not in the main mapping, after \<^verbatim>\<open>flash(k, undefined)\<close> the check
  \<^verbatim>\<open>has(k)\<close> is true although \<^verbatim>\<open>get(k)\<close> returns \<^verbatim>\<open>undefined\<close>; that \<^verbatim>\<open>get\<close> consumes the
  entry, and \<^verbatim>\<open>has(k)\<close> is false afterwards. \<^verbatim>\<open>set(k, undefined)\<close>, on any session, leaves no
  own property \<open>k\<close> in the main mapping.
\<close>

theorem flash_undefined_has:
  assumes absent: "\<not> js_in k (data s)"
    and fl: "js_get (data s) ''_flash'' = JObj fl"
  shows "(\<exists>s1 s2. Session_flash s k JUndefined = Inr s1 \<and> Session_has s1 k = Inr True
            \<and> Session_get s1 k = Inr (JUndefined, s2) \<and> Session_has s2 k = Inr False)
         \<and> map_of (data (Session_set t k JUndefined)) k = None"
proof -
  note ks = not_js_in_D [OF absent]
  let ?s1 = "s\<lparr>data := js_put ''_flash'' (JObj (js_put k JUndefined fl)) (data s)\<rparr>"
  let ?s2 = "?s1\<lparr>data := js_put ''_flash'' (JObj (js_delete k (js_put k JUndefined fl))) (data ?s1)\<rparr>"
  have f1: "Session_flash s k JUndefined = Inr ?s1"
    using fl by (rule Session_flash_obj)
  have a1: "\<not> js_in k (data ?s1)"
    using absent fl by (rule absent_flash_slot_put)
  have g1: "js_get (data ?s1) ''_flash'' = JObj (js_put k JUndefined fl)"
    by (rule flash_slot_put)
  have h1: "Session_has ?s1 k = Inr True"
    using Session_has_flash [OF a1 g1] ks(3) by (simp add: js_in_put_same)
  have f2: "Session_get ?s1 k = Inr (JUndefined, ?s2)"
    using Session_get_flash [OF a1 g1] ks(3) by (simp add: js_get_put_same)
  have a2: "\<not> js_in k (data ?s2)"
    using a1 g1 by (rule absent_flash_slot_put)
  have g2: "js_get (data ?s2) ''_flash'' = JObj (js_delete k (js_put k JUndefined fl))"
    by (rule flash_slot_put)
  have h2: "Session_has ?s2 k = Inr False"
    using Session_has_flash [OF a2 g2] ks(1) by (simp add: js_in_delete_same)
  have st: "map_of (data (Session_set t k JUndefined)) k = None"
    by (simp add: Session_set_def js_delete_def delete_conv')
  from f1 h1 f2 h2 st show ?thesis by blast
qed

theorem flash_undefined_has_witness:
  "\<not> js_in ''message'' (data demo_session)
   \<and> js_get (data demo_session) ''_flash'' = JObj []
   \<and> (\<exists>s1 s2. Session_flash demo_session ''message'' JUndefined = Inr s1
         \<and> Session_has s1 ''message'' = Inr True
         \<and> Session_get s1 ''message'' = Inr (JUndefined, s2)
         \<and> Session_has s2 ''message'' = Inr False)
   \<and> map_of (data (Session_set demo_session ''message'' JUndefined)) ''message'' = None"
  using demo_message_absent demo_flash_empty
    flash_undefined_has [OF demo_message_absent demo_flash_empty, of demo_session]
  by blast

section \<open>The JSON round trip\<close>

declare digits_of.simps [simp del]

lemma hex_value_digit: "n < 16 \<Longrightarrow> hex_value (hex_digit n) = Some n"
  by (auto simp: hex_value_def hex_digit_def Let_def)

lemma hex4_control:
  assumes "n < 32"
  shows "hex4 (CHR ''0'') (CHR ''0'') (hex_digit (n div 16)) (hex_digit (n mod 16)) = Some n"
proof -
  have a: "hex_value (CHR ''0'') = Some 0" by (simp add: hex_value_def)
  from assms have "n div 16 < 16" by simp
  then have b: "hex_value (hex_digit (n div 16)) = Some (n div 16)" by (rule hex_value_digit)
  have c: "hex_value (hex_digit (n mod 16)) = Some (n mod 16)" by (rule hex_value_digit) simp
  show ?thesis by (simp add: hex4_def a b c)
qed

lemma parse_chars_quote_char:
  "parse_chars (quote_char c @ tail) acc = parse_chars tail (c # acc)"
proof -
  consider (special) "c \<in> {CHR 0x08, CHR 0x09, CHR 0x0A, CHR 0x0C, CHR 0x0D, CHR 0x22, CHR 0x5C}"
    | (control) "c \<notin> {CHR 0x08, CHR 0x09, CHR 0x0A, CHR 0x0C, CHR 0x0D, CHR 0x22, CHR 0x5C}"
        "(of_char c :: nat) < 32"
    | (plain) "c \<notin> {CHR 0x08, CHR 0x09, CHR 0x0A, CHR 0x0C, CHR 0x0D, CHR 0x22, CHR 0x5C}"
        "\<not> (of_char c :: nat) < 32"
    by blast
  then show ?thesis
  proof cases
    case special
    then show ?thesis by (auto simp: quote_char_def unescape_def)
  next
    case control
    from control(2) have h: "hex4 (CHR ''0'') (CHR ''0'') (hex_digit ((of_char c :: nat) div 16))
        (hex_digit ((of_char c :: nat) mod 16)) = Some (of_char c)"
      by (rule hex4_control)
    from control show ?thesis by (simp add: quote_char_def h)
  next
    case plain
    then show ?thesis by (simp add: quote_char_def)
  qed
qed

lemma parse_chars_quoted:
  "parse_chars (concat (map quote_char s) @ CHR 0x22 # rest) acc = Some (rev acc @ s, rest)"
proof (induction s arbitrary: acc)
  case Nil
  show ?case by simp
next
  case (Cons c s)
  show ?case by (simp add: parse_chars_quote_char Cons.IH)
qed

lemma digits_of_digits: "c \<in> set (digits_of n) \<Longrightarrow> is_digit c"
proof (induction n rule: digits_of.induct)
  case (1 n)
  then show ?case
    by (subst (asm) (2) digits_of.simps) (auto simp: is_digit_def split: if_splits)
qed

lemma digits_of_nonempty: "digits_of n \<noteq> []"
  by (subst digits_of.simps) simp

lemma digits_value_snoc:
  "digits_value (ds @ [c]) = digits_value ds * 10 + ((of_char c :: nat) - 48)"
  by (simp add: digits_value_def)

lemma digits_value_digits_of: "digits_value (digits_of n) = n"
proof (induction n rule: digits_of.induct)
  case (1 n)
  show ?case
  proof (cases "n < 10")
    case True
    then show ?thesis by (subst digits_of.simps) (simp add: digits_value_def)
  next
    case False
    with 1 have "digits_value (digits_of (n div 10)) = n div 10" by simp
    with False show ?thesis by (subst digits_of.simps) (simp add: digits_value_snoc)
  qed
qed

lemma digits_of_leading_zero:
  "hd (digits_of n) = CHR ''0'' \<Longrightarrow> tl (digits_of n) = []"
proof (induction n rule: digits_of.induct)
  case (1 n)
  show ?case
  proof (cases "n < 10")
    case True
    then show ?thesis by (subst digits_of.simps) simp
  next
    case False
    then have ne: "n div 10 \<noteq> 0" by simp
    from False have e: "digits_of n = digits_of (n div 10) @ [char_of (48 + n mod 10)]"
      by (subst digits_of.simps) simp
    with "1.prems" have h: "hd (digits_of (n div 10)) = CHR ''0''"
      by (simp add: digits_of_nonempty)
    with 1 False have "tl (digits_of (n div 10)) = []" by simp
    with h have "digits_of (n div 10) = ''0''"
      using digits_of_nonempty [of "n div 10"] by (cases "digits_of (n div 10)") auto
    then have "digits_value (digits_of (n div 10)) = 0" by (simp add: digits_value_def)
    with ne show ?thesis by (simp add: digits_value_digits_of)
  qed
qed

lemma parse_nat_digits_of:
  assumes "ends_value rest"
  shows "parse_nat (digits_of n @ rest) = Some (n, rest)"
proof -
  have nd: "rest = [] \<or> \<not> is_digit (hd rest)"
    using assms by (auto simp: ends_value_def is_digit_def)
  have all: "\<forall>c \<in> set (digits_of n). is_digit c" by (blast intro: digits_of_digits)
  have tw: "takeWhile is_digit (digits_of n @ rest) = digits_of n"
    using nd all by (cases rest) (auto simp: takeWhile_tail)
  have dw: "dropWhile is_digit (digits_of n @ rest) = rest"
    using nd all by (cases rest) auto
  have z: "\<not> (hd (digits_of n) = CHR ''0'' \<and> tl (digits_of n) \<noteq> [])"
    using digits_of_leading_zero by blast
  have "parse_nat (digits_of n @ rest) =
          (case rest of
             [] \<Rightarrow> Some (n, rest)
           | x # _ \<Rightarrow> if x = CHR ''.'' \<or> x = CHR ''e'' \<or> x = CHR ''E'' then None
                      else Some (n, rest))"
    using z by (auto simp: parse_nat_def tw dw Let_def digits_of_nonempty digits_value_digits_of
        split: list.splits)
  also have "\<dots> = Some (n, rest)"
    using assms by (cases rest) (auto simp: ends_value_def)
  finally show ?thesis .
qed

lemma skip_ws_head: "\<not> is_ws c \<Longrightarrow> skip_ws (c # r) = c # r"
  by (simp add: skip_ws_def)

lemma update_fresh: "k \<notin> fst ` set acc \<Longrightarrow> AList.update k v acc = acc @ [(k, v)]"
  by (induction acc) auto

lemma is_digit_head:
  assumes "is_digit c"
  shows "\<not> is_ws c" and "c \<noteq> CHR ''n''" and "c \<noteq> CHR ''t''" and "c \<noteq> CHR ''f''"
    and "c \<noteq> CHR 0x22" and "c \<noteq> CHR ''{''" and "c \<noteq> CHR ''-''"
  using assms by (auto simp: is_digit_def is_ws_def)

lemma json_safe_serializes: "json_safe v \<Longrightarrow> SerializeJSONProperty v \<noteq> None"
  by (cases v) simp_all

lemma parse_value_null:
  "parse_value (Suc m) (''null'' @ rest) = Some (JNull, rest)"
  by (simp add: skip_ws_def is_ws_def)

lemma parse_value_bool:
  "parse_value (Suc m) ((if b then ''true'' else ''false'') @ rest) = Some (JBool b, rest)"
  by (simp add: skip_ws_def is_ws_def)

lemma parse_value_number:
  assumes "ends_value rest"
  shows "parse_value (Suc m) (Number_toString n @ rest) = Some (JNum n, rest)"
proof (cases "n < 0")
  case True
  have "parse_nat (digits_of (nat (- n)) @ rest) = Some (nat (- n), rest)"
    using assms by (rule parse_nat_digits_of)
  with True show ?thesis
    by (simp add: Number_toString_def skip_ws_def is_ws_def)
next
  case False
  obtain c ds where cd: "digits_of (nat n) = c # ds"
    using digits_of_nonempty [of "nat n"] by (cases "digits_of (nat n)") auto
  then have "c \<in> set (digits_of (nat n))" by simp
  then have d: "is_digit c" by (rule digits_of_digits)
  have p: "parse_nat (c # ds @ rest) = Some (nat n, rest)"
    using parse_nat_digits_of [OF assms, of "nat n"] cd by simp
  from False show ?thesis
    by (simp add: Number_toString_def cd skip_ws_head is_digit_head [OF d] d p)
qed

lemma parse_value_string:
  "parse_value (Suc m) (QuoteJSONString s @ rest) = Some (JStr s, rest)"
  by (simp add: QuoteJSONString_def skip_ws_def is_ws_def parse_chars_quoted)

lemma QuoteJSONString_length: "2 \<le> length (QuoteJSONString s)"
  by (simp add: QuoteJSONString_def)

text \<open>
  Parsing undoes serialising: a safe value is parsed back from its text, whatever follows
  the text, and so are the members of a safe object, appended to the members read so far.
\<close>

lemma parse_serialized:
  "json_safe v \<Longrightarrow>
     (\<exists>t. SerializeJSONProperty v = Some t
          \<and> (\<forall>n rest. length t < n \<longrightarrow> ends_value rest
                \<longrightarrow> parse_value n (t @ rest) = Some (v, rest)))"
  "json_safe_members ps \<Longrightarrow> ps \<noteq> [] \<Longrightarrow> distinct (map fst ps) \<Longrightarrow>
     (\<forall>n rest acc. length (join_commas (SerializeJSONMembers ps)) < n
          \<longrightarrow> fst ` set acc \<inter> fst ` set ps = {}
          \<longrightarrow> parse_members n (join_commas (SerializeJSONMembers ps) @ CHR ''}'' # rest) acc
                = Some (acc @ ps, rest))"
proof (induction v and ps rule: json_safe_json_safe_members.induct)
  case 1
  then show ?case by simp
next
  case 2
  show ?case
  proof (intro exI conjI allI impI)
    show "SerializeJSONProperty JNull = Some ''null''" by simp
  next
    fix n :: nat and rest
    assume "length ''null'' < n"
    then obtain m where "n = Suc m" by (cases n) auto
    then show "parse_value n (''null'' @ rest) = Some (JNull, rest)"
      by (simp only: parse_value_null)
  qed
next
  case (3 b)
  show ?case
  proof (intro exI conjI allI impI)
    show "SerializeJSONProperty (JBool b) = Some (if b then ''true'' else ''false'')" by simp
  next
    fix n :: nat and rest
    assume "length (if b then ''true'' else ''false'') < n"
    then obtain m where "n = Suc m" by (cases n) auto
    then show "parse_value n ((if b then ''true'' else ''false'') @ rest) = Some (JBool b, rest)"
      by (simp only: parse_value_bool)
  qed
next
  case (4 k)
  show ?case
  proof (intro exI conjI allI impI)
    show "SerializeJSONProperty (JNum k) = Some (Number_toString k)" by simp
  next
    fix n :: nat and rest
    assume "length (Number_toString k) < n" and e: "ends_value rest"
    then obtain m where "n = Suc m" by (cases n) auto
    with e show "parse_value n (Number_toString k @ rest) = Some (JNum k, rest)"
      by (simp only: parse_value_number)
  qed
next
  case 5
  then show ?case by simp
next
  case (6 b)
  then show ?case by simp
next
  case (7 s)
  show ?case
  proof (intro exI conjI allI impI)
    show "SerializeJSONProperty (JStr s) = Some (QuoteJSONString s)" by simp
  next
    fix n :: nat and rest
    assume "length (QuoteJSONString s) < n"
    then obtain m where "n = Suc m" by (cases n) auto
    then show "parse_value n (QuoteJSONString s @ rest) = Some (JStr s, rest)"
      by (simp only: parse_value_string)
  qed
next
  case (8 ps)
  let ?J = "join_commas (SerializeJSONMembers ps)"
  from "8.prems" have safe: "json_safe_members ps" and dist: "distinct (map fst ps)" by simp_all
  show ?case
  proof (intro exI conjI allI impI)
    show "SerializeJSONProperty (JObj ps) = Some (CHR ''{'' # ?J @ ''}'')" by simp
  next
    fix n :: nat and rest
    assume len: "length (CHR ''{'' # ?J @ ''}'') < n"
    then obtain m where n: "n = Suc m" by (cases n) auto
    show "parse_value n ((CHR ''{'' # ?J @ ''}'') @ rest) = Some (JObj ps, rest)"
    proof (cases "ps = []")
      case True
      then show ?thesis by (simp add: n join_commas_def skip_ws_def is_ws_def)
    next
      case False
      from "8.IH" [OF safe False dist] len n
      have pm: "parse_members m (?J @ CHR ''}'' # rest) [] = Some (ps, rest)" by simp
      obtain p qs where ps: "ps = p # qs" using False by (cases ps) auto
      from safe ps have "json_safe (snd p)" by simp
      then obtain t where t: "SerializeJSONProperty (snd p) = Some t"
        using json_safe_serializes by blast
      have hd: "?J = CHR 0x22 # tl ?J"
        by (simp add: ps t join_commas_def QuoteJSONString_def)
      have sk: "skip_ws (?J @ CHR ''}'' # rest) = CHR 0x22 # tl ?J @ CHR ''}'' # rest"
        by (subst hd) (simp add: skip_ws_def is_ws_def)
      show ?thesis
        by (simp add: n skip_ws_head is_ws_def sk pm)
    qed
  qed
next
  case (9 n)
  then show ?case by simp
next
  case 10
  then show ?case by simp
next
  case (11 p ps)
  obtain k v where p: "p = (k, v)" by (cases p)
  from "11.prems" p have sv: "json_safe v" and sps: "json_safe_members ps"
    and kfresh: "k \<notin> fst ` set ps" and dist: "distinct (map fst ps)"
    by auto
  from "11.IH"(1) sv p obtain t where t: "SerializeJSONProperty v = Some t"
    and pv: "\<And>n rest. length t < n \<Longrightarrow> ends_value rest \<Longrightarrow> parse_value n (t @ rest) = Some (v, rest)"
    by auto
  let ?M = "SerializeJSONMembers ps"
  let ?m1 = "QuoteJSONString k @ CHR '':'' # t"
  have mem: "SerializeJSONMembers (p # ps) = ?m1 # ?M" by (simp add: p t)
  show ?case
  proof (intro allI impI)
    fix n :: nat and rest :: string and acc :: jsobj
    assume len: "length (join_commas (SerializeJSONMembers (p # ps))) < n"
      and disj: "fst ` set acc \<inter> fst ` set (p # ps) = {}"
    from len obtain m where n: "n = Suc m" by (cases n) auto
    from len have len': "length (join_commas (?m1 # ?M)) < n" by (simp only: mem)
    from disj p have kacc: "k \<notin> fst ` set acc" by auto
    then have upd: "AList.update k v acc = acc @ [(k, v)]" by (rule update_fresh)
    have lt: "length t < m"
      using len' n QuoteJSONString_length [of k] by (simp add: join_commas_def)
    show "parse_members n (join_commas (SerializeJSONMembers (p # ps)) @ CHR ''}'' # rest) acc
            = Some (acc @ p # ps, rest)"
    proof (cases "ps = []")
      case True
      have v: "parse_value m (t @ CHR ''}'' # rest) = Some (v, CHR ''}'' # rest)"
        using lt by (rule pv) (simp add: ends_value_def)
      have J: "join_commas (SerializeJSONMembers (p # ps)) = ?m1"
        unfolding mem using True by (simp add: join_commas_def)
      from True show ?thesis
        unfolding J
        by (simp add: n QuoteJSONString_def skip_ws_def is_ws_def parse_chars_quoted v upd p)
    next
      case False
      then obtain q qs where qs: "ps = q # qs" by (cases ps) auto
      from sps qs have "json_safe (snd q)" by simp
      then obtain u where u: "SerializeJSONProperty (snd q) = Some u"
        using json_safe_serializes by blast
      have M: "?M = (QuoteJSONString (fst q) @ CHR '':'' # u) # SerializeJSONMembers qs"
        by (simp add: qs u)
      have J: "join_commas (?m1 # ?M) = ?m1 @ CHR '','' # join_commas ?M"
        by (simp add: M join_commas_def)
      have J': "join_commas (SerializeJSONMembers (p # ps)) = ?m1 @ CHR '','' # join_commas ?M"
        unfolding mem by (rule J)
      have v: "parse_value m (t @ CHR '','' # join_commas ?M @ CHR ''}'' # rest)
                 = Some (v, CHR '','' # join_commas ?M @ CHR ''}'' # rest)"
        using lt by (rule pv) (simp add: ends_value_def)
      have lM: "length (join_commas ?M) < m"
        using len' n by (simp add: J)
      have d2: "fst ` set (acc @ [(k, v)]) \<inter> fst ` set ps = {}"
        using disj kfresh p by auto
      from "11.IH"(2) sv p sps False dist lM d2
      have rec: "parse_members m (join_commas ?M @ CHR ''}'' # rest) (acc @ [(k, v)])
                   = Some ((acc @ [(k, v)]) @ ps, rest)"
        by simp
      show ?thesis
        unfolding J'
        by (simp add: n QuoteJSONString_def skip_ws_def is_ws_def parse_chars_quoted v upd rec p)
    qed
  qed
qed

lemma JSON_roundtrip:
  assumes "json_safe (JObj d)"
  shows "JSON_parse (JSON_stringify d) = Some (JObj d)"
proof -
  from parse_serialized(1) [OF assms] obtain t
    where t: "SerializeJSONProperty (JObj d) = Some t"
      and p: "\<And>n rest. length t < n \<Longrightarrow> ends_value rest
                \<Longrightarrow> parse_value n (t @ rest) = Some (JObj d, rest)"
    by blast
  from t have e: "t = JSON_stringify d" by (simp add: JSON_stringify_def)
  have "parse_value (Suc (length t)) (t @ []) = Some (JObj d, [])"
    by (rule p) (simp_all add: ends_value_def)
  then show ?thesis by (simp add: JSON_parse_def skip_ws_def e)
qed

lemma json_safe_update:
  assumes "json_safe (JObj d)" and "json_safe v"
  shows "json_safe (JObj (AList.update k v d))"
proof -
  have m: "json_safe_members d \<Longrightarrow> json_safe_members (AList.update k v d)" for d
    using assms(2) by (induction d) auto
  from assms(1) m show ?thesis by (simp add: distinct_update)
qed

lemma demo_data_safe: "json_safe (JObj demo_data)"
  by (simp add: demo_data_def)

section \<open>The request-end handler\<close>

lemmas world_ops =
  Store_createSession_def Store_persistSessionData_def Store_deleteSession_def
  cookies_set_def cookies_delete_def CookieStore_deleteSession_def
  CookieStore_persistSessionData_def

lemma createSession_default_keyed:
  "Session_createSession e Store x (Some d) w =
     Inr (\<lparr>sid = nanoid e (minted w), data = d\<rparr>,
          Store_createSession (nanoid e (minted w)) d (w\<lparr>minted := Suc (minted w)\<rparr>))"
  by (simp add: Session_createSession_def nanoid_next_def)

lemma storeState_keyed_rotate:
  "storeState e Store opts (Some s) True w =
     (let newID = nanoid e (minted w);
          w2 = Store_persistSessionData newID (data s)
                 (cookies_set (sessionCookieName opts) newID
                    (Store_createSession newID (data s)
                       ((Store_deleteSession (sid s) w)\<lparr>minted := Suc (minted w)\<rparr>)))
      in Inr (if truthy (js_get (data s) ''_delete'')
              then cookies_delete (sessionCookieName opts) (Store_deleteSession newID w2)
              else w2))"
  by (simp add: storeState_def createSession_default_keyed Session_persistSessionData_def
      Store_deleteSession_def Let_def)

lemma storeState_keyed_plain:
  "storeState e Store opts (Some s) False w =
     (let w2 = Store_persistSessionData (sid s) (data s) w
      in Inr (if truthy (js_get (data s) ''_delete'')
              then cookies_delete (sessionCookieName opts) (Store_deleteSession (sid s) w2)
              else w2))"
  by (simp add: storeState_def Session_persistSessionData_def Let_def)

lemma storeState_cookie:
  "storeState e (CookieStore key cname) opts (Some s) r w =
     (let w2 = CookieStore_persistSessionData e key cname (data s) w
      in Inr (if truthy (js_get (data s) ''_delete'')
              then CookieStore_deleteSession cname w2
              else w2))"
  by (simp add: storeState_def Session_persistSessionData_def Let_def)

lemma deleted_session_data:
  "deleted_session =
     \<lparr>sid = ''old'',
      data = [(''_flash'', JObj []), (''_accessed'', JNull), (''_expire'', JNull),
              (''_delete'', JBool True), (''email'', JStr ''a@b.com'')]\<rparr>"
  by (simp add: deleted_session_def Session_deleteSession_def demo_session_def demo_data_def
      js_put_def)

text \<open>
  C1, as the code has it. \<^verbatim>\<open>storeState\<close> persists first and looks at \<^verbatim>\<open>_delete\<close> afterwards.
  For a session marked for deletion it returns, and its writes are exactly these: on a
  keyed store without rotation, \<^verbatim>\<open>persistSessionData\<close> of the data under the session's
  identifier, then \<^verbatim>\<open>deleteSession\<close> of that identifier and the deletion of the transport
  cookie; with rotation, the same three under the newly minted identifier, after the old
  entry is deleted, the new one created and the cookie set; on a cookie store, the payload
  cookie is set to the encrypted data and then deleted. Afterwards the store has no entry
  under the old identifier nor under the new one, and the cookie is cleared.
\<close>

theorem storeState_delete_removes:
  assumes del: "truthy (js_get (data s) ''_delete'')"
  shows "\<exists>w'. storeState e st opts (Some s) r w = Inr w'
           \<and> (case st of
                Store \<Rightarrow>
                  (if r
                   then trace w' = trace w
                          @ [StoreDelete (sid s), StoreCreate (nanoid e (minted w)) (data s),
                             CookieSet (sessionCookieName opts) (nanoid e (minted w)),
                             StorePersist (nanoid e (minted w)) (data s),
                             StoreDelete (nanoid e (minted w)),
                             CookieDelete (sessionCookieName opts)]
                        \<and> keyed w' (nanoid e (minted w)) = None
                   else trace w' = trace w
                          @ [StorePersist (sid s) (data s), StoreDelete (sid s),
                             CookieDelete (sessionCookieName opts)])
                  \<and> keyed w' (sid s) = None
                  \<and> cookies w' (sessionCookieName opts) = None
              | CookieStore key cname \<Rightarrow>
                  trace w' = trace w
                    @ [CookieSet cname (encryptCryptoJSAES e (JSON_stringify (data s)) key),
                       CookieDelete cname]
                  \<and> cookies w' cname = None)"
proof (cases st)
  case Store
  show ?thesis
  proof (cases r)
    case True
    with Store del show ?thesis
      by (simp add: storeState_keyed_rotate world_ops Let_def)
  next
    case False
    with Store del show ?thesis
      by (simp add: storeState_keyed_plain world_ops Let_def)
  qed
next
  case (CookieStore key cname)
  with del show ?thesis
    by (simp add: storeState_cookie world_ops Let_def)
qed

theorem storeState_delete_removes_witness:
  "truthy (js_get (data deleted_session) ''_delete'')
   \<and> (\<exists>w'. storeState demo_env Store demo_opts (Some deleted_session) False
              (keyed_world demo_data) = Inr w'
         \<and> trace w' = trace (keyed_world demo_data)
             @ [StorePersist (sid deleted_session) (data deleted_session),
                StoreDelete (sid deleted_session), CookieDelete (sessionCookieName demo_opts)]
         \<and> keyed w' (sid deleted_session) = None
         \<and> cookies w' (sessionCookieName demo_opts) = None)"
proof -
  have d: "truthy (js_get (data deleted_session) ''_delete'')"
    by (simp add: deleted_session_data js_get_def)
  from storeState_delete_removes [OF d, where st = Store and e = demo_env and opts = demo_opts
      and r = False and w = "keyed_world demo_data"] d
  show ?thesis by simp
qed

text \<open>
  C1 as stated fails: without rotation, on a keyed store, the writes of \<^verbatim>\<open>storeState\<close> for
  a session whose \<^verbatim>\<open>_delete\<close> is \<^verbatim>\<open>true\<close> begin with \<^verbatim>\<open>persistSessionData\<close> of that data
  under the session's identifier; the deletion follows.
\<close>

theorem storeState_delete_persists_first:
  "data deleted_session =
     [(''_flash'', JObj []), (''_accessed'', JNull), (''_expire'', JNull),
      (''_delete'', JBool True), (''email'', JStr ''a@b.com'')]
   \<and> map_sum fst trace
       (storeState demo_env Store demo_opts (Some deleted_session) False (keyed_world demo_data))
     = Inr [StorePersist ''old'' (data deleted_session), StoreDelete ''old'',
            CookieDelete ''session'']"
  by (simp add: storeState_keyed_plain deleted_session_data js_get_def world_ops Let_def
      keyed_world_def demo_opts_def)

text \<open>
  C7: on a keyed store, \<^verbatim>\<open>storeState\<close> with \<^verbatim>\<open>rotate_session_key\<close> returns, having deleted
  the entry of the old identifier, created an entry with the session's data, unchanged,
  under the next identifier of the generator, set the transport cookie to it and persisted
  the same data under it (the deletion of C1 follows when \<^verbatim>\<open>_delete\<close> is set). When
  \<^verbatim>\<open>_delete\<close> is not set and the new identifier differs from the old one, the store
  afterwards has nothing under the old identifier and the data under the new one, and the
  cookie names the new one. On a cookie store the flag changes nothing.
\<close>

theorem storeState_rotates:
  "(\<exists>w'. storeState e Store opts (Some s) True w = Inr w'
      \<and> trace w'
          = trace w
            @ [StoreDelete (sid s), StoreCreate (nanoid e (minted w)) (data s),
               CookieSet (sessionCookieName opts) (nanoid e (minted w)),
               StorePersist (nanoid e (minted w)) (data s)]
            @ (if truthy (js_get (data s) ''_delete'')
               then [StoreDelete (nanoid e (minted w)), CookieDelete (sessionCookieName opts)]
               else [])
      \<and> (\<not> truthy (js_get (data s) ''_delete'') \<and> nanoid e (minted w) \<noteq> sid s \<longrightarrow>
           keyed w' (sid s) = None
           \<and> keyed w' (nanoid e (minted w)) = Some (data s)
           \<and> cookies w' (sessionCookieName opts) = Some (nanoid e (minted w))))
   \<and> storeState e (CookieStore key cname) opts (Some s) True w
       = storeState e (CookieStore key cname) opts (Some s) False w"
proof (intro conjI)
  let ?w2 = "Store_persistSessionData (nanoid e (minted w)) (data s)
               (cookies_set (sessionCookieName opts) (nanoid e (minted w))
                  (Store_createSession (nanoid e (minted w)) (data s)
                     ((Store_deleteSession (sid s) w)\<lparr>minted := Suc (minted w)\<rparr>)))"
  let ?w' = "if truthy (js_get (data s) ''_delete'')
             then cookies_delete (sessionCookieName opts)
                    (Store_deleteSession (nanoid e (minted w)) ?w2)
             else ?w2"
  have ret: "storeState e Store opts (Some s) True w = Inr ?w'"
    by (simp add: storeState_keyed_rotate Let_def)
  have tr: "trace ?w'
          = trace w
            @ [StoreDelete (sid s), StoreCreate (nanoid e (minted w)) (data s),
               CookieSet (sessionCookieName opts) (nanoid e (minted w)),
               StorePersist (nanoid e (minted w)) (data s)]
            @ (if truthy (js_get (data s) ''_delete'')
               then [StoreDelete (nanoid e (minted w)), CookieDelete (sessionCookieName opts)]
               else [])"
    by (simp add: world_ops)
  have fin: "\<not> truthy (js_get (data s) ''_delete'') \<and> nanoid e (minted w) \<noteq> sid s \<longrightarrow>
           keyed ?w' (sid s) = None
           \<and> keyed ?w' (nanoid e (minted w)) = Some (data s)
           \<and> cookies ?w' (sessionCookieName opts) = Some (nanoid e (minted w))"
    by (auto simp: world_ops)
  from ret tr fin
  show "\<exists>w'. storeState e Store opts (Some s) True w = Inr w'
      \<and> trace w'
          = trace w
            @ [StoreDelete (sid s), StoreCreate (nanoid e (minted w)) (data s),
               CookieSet (sessionCookieName opts) (nanoid e (minted w)),
               StorePersist (nanoid e (minted w)) (data s)]
            @ (if truthy (js_get (data s) ''_delete'')
               then [StoreDelete (nanoid e (minted w)), CookieDelete (sessionCookieName opts)]
               else [])
      \<and> (\<not> truthy (js_get (data s) ''_delete'') \<and> nanoid e (minted w) \<noteq> sid s \<longrightarrow>
           keyed w' (sid s) = None
           \<and> keyed w' (nanoid e (minted w)) = Some (data s)
           \<and> cookies w' (sessionCookieName opts) = Some (nanoid e (minted w)))"
    by (intro exI [of _ ?w'] conjI)
next
  show "storeState e (CookieStore key cname) opts (Some s) True w
          = storeState e (CookieStore key cname) opts (Some s) False w"
    by (simp add: storeState_cookie)
qed

theorem storeState_rotates_witness:
  "\<not> truthy (js_get (data demo_session) ''_delete'')
   \<and> nanoid demo_env (minted (keyed_world demo_data)) \<noteq> sid demo_session
   \<and> (\<exists>w'. storeState demo_env Store demo_opts (Some demo_session) True (keyed_world demo_data)
             = Inr w'
         \<and> trace w'
             = [StoreDelete ''old'', StoreCreate ''id'' demo_data, CookieSet ''session'' ''id'',
                StorePersist ''id'' demo_data]
         \<and> keyed w' ''old'' = None
         \<and> keyed w' ''id'' = Some demo_data
         \<and> cookies w' ''session'' = Some ''id'')"
proof -
  have k: "\<not> truthy (js_get (data demo_session) ''_delete'')"
    by (simp add: demo_session_def demo_data_def js_get_def)
  have f: "nanoid demo_env (minted (keyed_world demo_data)) \<noteq> sid demo_session"
    by (simp add: demo_env_def keyed_world_def demo_session_def)
  have n: "nanoid demo_env 0 = ''id''"
    by (simp add: demo_env_def)
  from storeState_rotates [where e = demo_env and opts = demo_opts and s = demo_session
      and w = "keyed_world demo_data"] k f
  show ?thesis by (simp add: n demo_session_def demo_opts_def keyed_world_def)
qed

section \<open>Fetching a session\<close>

lemma Session_set_JStr: "Session_set s k (JStr x) = s\<lparr>data := js_put k (JStr x) (data s)\<rparr>"
  by (simp add: Session_set_def)

lemma fetched_eq:
  "fetched e opts (Inr (s, w)) =
     Inr (Some (s\<lparr>data := js_put ''_accessed'' (JStr (toISOString e (clock e (ticks w)))) (data s)\<rparr>),
          cookies_set (sessionCookieName opts) (sid s) (w\<lparr>ticks := Suc (ticks w)\<rparr>))"
  by (simp add: fetched_def Date_now_def Session_set_JStr)

lemma fetched_error: "fetched e opts (Inl ew) = Inl ew"
  by (simp add: fetched_def)

lemma sessionValid_null:
  "js_get d ''_expire'' = JNull \<Longrightarrow> Session_sessionValid e (JObj d) w = (True, w)"
  by (simp add: Session_sessionValid_def)

lemma sessionValid_past:
  assumes "js_get d ''_expire'' = JStr x" and "Date_parse e x = Some t" and "t \<le> clock e (ticks w)"
  shows "Session_sessionValid e (JObj d) w = (False, w\<lparr>ticks := Suc (ticks w)\<rparr>)"
  using assms by (simp add: Session_sessionValid_def Date_now_def Date_getTime_def)

lemma expire_value_eq:
  "expire_value e x w =
     (case x of
        None \<Rightarrow> Inr (JNull, w)
      | Some n \<Rightarrow>
          if n = 0 then Inr (JNull, w)
          else if \<bar>clock e (ticks w) + n * 1000\<bar> \<le> 8640000000000000
            then Inr (JStr (toISOString e (clock e (ticks w) + n * 1000)),
                      w\<lparr>ticks := Suc (ticks w)\<rparr>)
            else Inl (RangeError, w\<lparr>ticks := Suc (ticks w)\<rparr>))"
  by (simp add: expire_value_def Date_now_def Date_toISOString_def split: option.splits)

lemma expire_value_none:
  assumes "x = None \<or> x = Some 0"
  shows "expire_value e x w = Inr (JNull, w)"
  using assms by (auto simp: expire_value_def)

lemma reupSession_eq:
  "Session_reupSession e x s w =
     (case expire_value e x w of
        Inl ew \<Rightarrow> Inl ew
      | Inr (ex, w') \<Rightarrow> Inr (s\<lparr>data := js_put ''_expire'' ex (data s)\<rparr>, w'))"
  by (simp add: Session_reupSession_def)

lemma fetchSession_keyed_loaded:
  assumes "cookies w (sessionCookieName opts) = Some sid0" and "sid0 \<noteq> []"
    and "keyed w sid0 = Some d" and "Session_sessionValid e (JObj d) w = (valid, w1)"
  shows "fetchSession e Store opts w =
           (if valid
            then fetched e opts (Session_reupSession e (expireAfterSeconds opts) \<lparr>sid = sid0, data = d\<rparr> w1)
            else fetched e opts (Session_createSession e Store (expireAfterSeconds opts) None
                                  (Store_deleteSession sid0 w1)))"
  using assms by (simp add: fetchSession_def cookies_get_def Store_getSessionById_def)

lemma fetchSession_cookie_loaded:
  assumes "CookieStore_getSessionFromCookie e key cname w = JObj d"
    and "Session_sessionValid e (JObj d) w = (valid, w1)"
  shows "fetchSession e (CookieStore key cname) opts w =
           (if valid
            then fetched e opts (Session_reupSession e (expireAfterSeconds opts) \<lparr>sid = [], data = d\<rparr> w1)
            else fetched e opts (Session_createSession e (CookieStore key cname) (expireAfterSeconds opts) None
                                  (CookieStore_deleteSession cname w1)))"
  using assms by (simp add: fetchSession_def)

lemma fetchSession_valid:
  assumes loaded:
      "(st = Store \<and> cookies w (sessionCookieName opts) = Some sid0 \<and> sid0 \<noteq> []
          \<and> keyed w sid0 = Some d)
       \<or> (is_CookieStore st \<and> sid0 = []
          \<and> CookieStore_getSessionFromCookie e (encryptionKey st) (sessionDataCookieName st) w = JObj d)"
    and valid: "Session_sessionValid e (JObj d) w = (True, w1)"
  shows "fetchSession e st opts w =
           fetched e opts (Session_reupSession e (expireAfterSeconds opts) \<lparr>sid = sid0, data = d\<rparr> w1)"
  using loaded
proof
  assume "st = Store \<and> cookies w (sessionCookieName opts) = Some sid0 \<and> sid0 \<noteq> []
          \<and> keyed w sid0 = Some d"
  with valid show ?thesis by (simp add: fetchSession_keyed_loaded)
next
  assume c: "is_CookieStore st \<and> sid0 = []
          \<and> CookieStore_getSessionFromCookie e (encryptionKey st) (sessionDataCookieName st) w = JObj d"
  then obtain key cname where st: "st = CookieStore key cname" by (cases st) auto
  with c valid show ?thesis by (simp add: fetchSession_cookie_loaded)
qed

lemma getSessionFromCookie_payload:
  assumes "cookies w cname = Some c" and "c \<noteq> []"
    and "decryptCryptoJSAES e c key = Some p" and "JSON_parse p = Some v"
  shows "CookieStore_getSessionFromCookie e key cname w = v"
  using assms by (simp add: CookieStore_getSessionFromCookie_def cookies_get_def)

lemma live_data_valid:
  "Session_sessionValid demo_env (JObj live_data) (keyed_world live_data)
     = (True, (keyed_world live_data)\<lparr>ticks := 1\<rparr>)"
  by (simp add: Session_sessionValid_def Date_now_def Date_getTime_def live_data_def js_get_def
      demo_env_def demo_calendar_def keyed_world_def)

lemma live_data_loaded:
  "cookies (keyed_world live_data) ''session'' = Some ''old''
   \<and> keyed (keyed_world live_data) ''old'' = Some live_data"
  by (simp add: keyed_world_def)

text \<open>
  C4, as the code has it: a \<^verbatim>\<open>fetchSession\<close> that loads a session object (from the keyed
  store under the identifier in the cookie, or from the payload cookie) which passes
  \<^verbatim>\<open>sessionValid\<close> returns that session with \<^verbatim>\<open>_accessed\<close> stamped and, whatever \<^verbatim>\<open>_expire\<close>
  was loaded, with \<^verbatim>\<open>_expire\<close> set to \<^verbatim>\<open>null\<close> when \<^verbatim>\<open>expireAfterSeconds\<close> is \<^verbatim>\<open>null\<close> or 0, and
  otherwise to the clock's reading after the validity check plus \<^verbatim>\<open>expireAfterSeconds\<close>
  seconds, provided that instant is within the range of dates.
\<close>

theorem fetchSession_renews:
  assumes loaded:
      "(st = Store \<and> cookies w (sessionCookieName opts) = Some sid0 \<and> sid0 \<noteq> []
          \<and> keyed w sid0 = Some d)
       \<or> (is_CookieStore st \<and> sid0 = []
          \<and> CookieStore_getSessionFromCookie e (encryptionKey st) (sessionDataCookieName st) w = JObj d)"
    and valid: "Session_sessionValid e (JObj d) w = (True, w1)"
    and range: "case expireAfterSeconds opts of
                  None \<Rightarrow> True
                | Some n \<Rightarrow> n = 0 \<or> \<bar>clock e (ticks w1) + n * 1000\<bar> \<le> 8640000000000000"
  shows "\<exists>s w'. fetchSession e st opts w = Inr (Some s, w') \<and> sid s = sid0
           \<and> js_get (data s) ''_expire''
               = (case expireAfterSeconds opts of
                    None \<Rightarrow> JNull
                  | Some n \<Rightarrow> if n = 0 then JNull
                              else JStr (toISOString e (clock e (ticks w1) + n * 1000)))
           \<and> data s
               = js_put ''_accessed''
                   (JStr (toISOString e
                       (clock e (case expireAfterSeconds opts of
                                   None \<Rightarrow> ticks w1
                                 | Some n \<Rightarrow> if n = 0 then ticks w1 else Suc (ticks w1)))))
                   (js_put ''_expire''
                      (case expireAfterSeconds opts of
                         None \<Rightarrow> JNull
                       | Some n \<Rightarrow> if n = 0 then JNull
                                   else JStr (toISOString e (clock e (ticks w1) + n * 1000)))
                      d)"
  unfolding fetchSession_valid [OF loaded valid]
  using range
  by (auto simp: reupSession_eq fetched_eq js_get_put_other js_get_put_same expire_value_eq
      split: option.splits)

theorem fetchSession_renews_witness:
  "cookies (keyed_world live_data) (sessionCookieName demo_opts) = Some ''old''
   \<and> keyed (keyed_world live_data) ''old'' = Some live_data
   \<and> Session_sessionValid demo_env (JObj live_data) (keyed_world live_data)
       = (True, (keyed_world live_data)\<lparr>ticks := 1\<rparr>)
   \<and> \<bar>clock demo_env (ticks ((keyed_world live_data)\<lparr>ticks := 1\<rparr>)) + 60 * 1000\<bar>
       \<le> 8640000000000000
   \<and> (\<exists>s w'. fetchSession demo_env Store demo_opts (keyed_world live_data) = Inr (Some s, w')
         \<and> sid s = ''old''
         \<and> js_get (data s) ''_expire'' = JStr ''1970-01-01T00:01:06.000Z'')"
proof -
  have c: "cookies (keyed_world live_data) (sessionCookieName demo_opts) = Some ''old''"
    by (simp add: keyed_world_def demo_opts_def)
  have k: "keyed (keyed_world live_data) ''old'' = Some live_data"
    by (simp add: keyed_world_def)
  note v = live_data_valid
  have l: "(Store = Store \<and> cookies (keyed_world live_data) (sessionCookieName demo_opts) = Some ''old''
              \<and> ''old'' \<noteq> [] \<and> keyed (keyed_world live_data) ''old'' = Some live_data)
           \<or> (is_CookieStore Store \<and> ''old'' = []
              \<and> CookieStore_getSessionFromCookie demo_env (encryptionKey Store)
                    (sessionDataCookieName Store) (keyed_world live_data) = JObj live_data)"
    using c k by simp
  have r: "case expireAfterSeconds demo_opts of
             None \<Rightarrow> True
           | Some n \<Rightarrow> n = 0 \<or> \<bar>clock demo_env (ticks ((keyed_world live_data)\<lparr>ticks := 1\<rparr>)) + n * 1000\<bar>
                          \<le> 8640000000000000"
    by (simp add: demo_opts_def demo_env_def)
  have b: "\<bar>clock demo_env (ticks ((keyed_world live_data)\<lparr>ticks := 1\<rparr>)) + 60 * 1000\<bar>
             \<le> 8640000000000000"
    by (simp add: demo_env_def)
  from fetchSession_renews [OF l v r] obtain s w'
    where f: "fetchSession demo_env Store demo_opts (keyed_world live_data) = Inr (Some s, w')"
      and i: "sid s = ''old''"
      and x: "js_get (data s) ''_expire''
               = (case expireAfterSeconds demo_opts of
                    None \<Rightarrow> JNull
                  | Some n \<Rightarrow> if n = 0 then JNull
                              else JStr (toISOString demo_env
                                     (clock demo_env (ticks ((keyed_world live_data)\<lparr>ticks := 1\<rparr>))
                                      + n * 1000)))"
    by blast
  from x have "js_get (data s) ''_expire'' = JStr ''1970-01-01T00:01:06.000Z''"
    by (simp add: demo_opts_def demo_env_def demo_calendar_def)
  with f i c k v b show ?thesis by blast
qed

text \<open>
  C4 as stated fails twice. With a window of 0 seconds configured, a session that was due
  to expire at 6 s comes back with \<^verbatim>\<open>_expire\<close> \<^verbatim>\<open>null\<close>, not with the time of the fetch. With a
  window of 8.64e12 seconds the renewed instant is no date, and \<^verbatim>\<open>fetchSession\<close> throws a
  RangeError instead of returning the session.
\<close>

theorem fetchSession_renews_not_always:
  "map_sum fst (\<lambda>(r, w'). map_option (\<lambda>s. js_get (data s) ''_expire'') r)
     (fetchSession demo_env Store zero_opts (keyed_world live_data)) = Inr (Some JNull)
   \<and> map_sum fst (\<lambda>(r, w'). map_option (\<lambda>s. js_get (data s) ''_expire'') r)
       (fetchSession demo_env Store huge_opts (keyed_world live_data)) = Inl RangeError"
proof -
  have z: "cookies (keyed_world live_data) (sessionCookieName zero_opts) = Some ''old''"
    and h: "cookies (keyed_world live_data) (sessionCookieName huge_opts) = Some ''old''"
    and k: "keyed (keyed_world live_data) ''old'' = Some live_data"
    by (simp_all add: keyed_world_def zero_opts_def huge_opts_def)
  have n: "''old'' \<noteq> []" by simp
  show ?thesis
    unfolding fetchSession_keyed_loaded [OF z n k live_data_valid]
      fetchSession_keyed_loaded [OF h n k live_data_valid]
    by (simp add: reupSession_eq fetched_eq fetched_error expire_value_eq zero_opts_def
        huge_opts_def js_get_put_other js_get_put_same demo_env_def keyed_world_def)
qed

lemma createSession_fresh_keyed:
  "Session_createSession e Store x None w =
     (case expire_value e x (w\<lparr>ticks := Suc (ticks w)\<rparr>) of
        Inl ew \<Rightarrow> Inl ew
      | Inr (ex, wb) \<Rightarrow>
          Inr (\<lparr>sid = nanoid e (minted wb),
                data = [(''_flash'', JObj []),
                        (''_accessed'', JStr (toISOString e (clock e (ticks w)))),
                        (''_expire'', ex), (''_delete'', JBool False)]\<rparr>,
               Store_createSession (nanoid e (minted wb))
                 [(''_flash'', JObj []),
                  (''_accessed'', JStr (toISOString e (clock e (ticks w)))),
                  (''_expire'', ex), (''_delete'', JBool False)]
                 (wb\<lparr>minted := Suc (minted wb)\<rparr>)))"
  by (simp add: Session_createSession_def Date_now_def nanoid_next_def Let_def
      split: sum.splits prod.splits)

text \<open>
  C2, as the code has it: on a keyed store, when the session the cookie names has an
  \<^verbatim>\<open>_expire\<close> that is not after the clock's reading, the generator's next identifier
  differs from the old one, and the new session's expiry instant (if a window is
  configured) is within the range of dates, \<^verbatim>\<open>fetchSession\<close> returns a session with the new
  identifier whose data has the four default fields only, \<^verbatim>\<open>_flash\<close> empty, \<^verbatim>\<open>_delete\<close> false
  and a new \<^verbatim>\<open>_expire\<close>; the store has no entry under the old identifier and the cookie
  names the new one.
\<close>

theorem fetchSession_expired_replaced:
  assumes cookie: "cookies w (sessionCookieName opts) = Some sid0" and nonempty: "sid0 \<noteq> []"
    and stored: "keyed w sid0 = Some d"
    and expire: "js_get d ''_expire'' = JStr x" and parsed: "Date_parse e x = Some t"
    and past: "t \<le> clock e (ticks w)"
    and fresh: "nanoid e (minted w) \<noteq> sid0"
    and range: "case expireAfterSeconds opts of
                  None \<Rightarrow> True
                | Some n \<Rightarrow> n = 0 \<or> \<bar>clock e (ticks w + 2) + n * 1000\<bar> \<le> 8640000000000000"
  shows "\<exists>s w'. fetchSession e Store opts w = Inr (Some s, w')
           \<and> sid s = nanoid e (minted w) \<and> sid s \<noteq> sid0
           \<and> keyed w' sid0 = None
           \<and> cookies w' (sessionCookieName opts) = Some (sid s)
           \<and> map fst (data s) = [''_flash'', ''_accessed'', ''_expire'', ''_delete'']
           \<and> js_get (data s) ''_flash'' = JObj []
           \<and> js_get (data s) ''_delete'' = JBool False
           \<and> js_get (data s) ''_expire''
               = (case expireAfterSeconds opts of
                    None \<Rightarrow> JNull
                  | Some n \<Rightarrow> if n = 0 then JNull
                              else JStr (toISOString e (clock e (ticks w + 2) + n * 1000)))"
proof -
  have v: "Session_sessionValid e (JObj d) w = (False, w\<lparr>ticks := Suc (ticks w)\<rparr>)"
    using expire parsed past by (rule sessionValid_past)
  show ?thesis
    unfolding fetchSession_keyed_loaded [OF cookie nonempty stored v]
    using fresh range
    by (auto simp: createSession_fresh_keyed fetched_eq expire_value_eq world_ops Let_def
        js_put_def js_get_def split: option.splits)
qed

theorem fetchSession_expired_replaced_witness:
  "cookies (keyed_world expired_data) (sessionCookieName demo_opts) = Some ''old''
   \<and> keyed (keyed_world expired_data) ''old'' = Some expired_data
   \<and> js_get expired_data ''_expire'' = JStr ''1970-01-01T00:00:01.000Z''
   \<and> Date_parse demo_env ''1970-01-01T00:00:01.000Z'' = Some 1000
   \<and> 1000 \<le> clock demo_env (ticks (keyed_world expired_data))
   \<and> nanoid demo_env (minted (keyed_world expired_data)) \<noteq> ''old''
   \<and> \<bar>clock demo_env (ticks (keyed_world expired_data) + 2) + 60 * 1000\<bar> \<le> 8640000000000000
   \<and> (\<exists>s w'. fetchSession demo_env Store demo_opts (keyed_world expired_data) = Inr (Some s, w')
         \<and> sid s = ''id'' \<and> sid s \<noteq> ''old''
         \<and> keyed w' ''old'' = None
         \<and> cookies w' ''session'' = Some (sid s)
         \<and> map fst (data s) = [''_flash'', ''_accessed'', ''_expire'', ''_delete'']
         \<and> js_get (data s) ''_flash'' = JObj []
         \<and> js_get (data s) ''_delete'' = JBool False
         \<and> js_get (data s) ''_expire'' = JStr ''1970-01-01T00:01:07.000Z'')"
proof -
  have c: "cookies (keyed_world expired_data) (sessionCookieName demo_opts) = Some ''old''"
    by (simp add: keyed_world_def demo_opts_def)
  have n: "''old'' \<noteq> []" by simp
  have k: "keyed (keyed_world expired_data) ''old'' = Some expired_data"
    by (simp add: keyed_world_def)
  have x: "js_get expired_data ''_expire'' = JStr ''1970-01-01T00:00:01.000Z''"
    by (simp add: expired_data_def js_get_def)
  have p: "Date_parse demo_env ''1970-01-01T00:00:01.000Z'' = Some 1000"
    by (simp add: demo_env_def demo_calendar_def)
  have t: "1000 \<le> clock demo_env (ticks (keyed_world expired_data))"
    by (simp add: demo_env_def keyed_world_def)
  have f: "nanoid demo_env (minted (keyed_world expired_data)) \<noteq> ''old''"
    by (simp add: demo_env_def keyed_world_def)
  have r: "case expireAfterSeconds demo_opts of
             None \<Rightarrow> True
           | Some n \<Rightarrow> n = 0 \<or> \<bar>clock demo_env (ticks (keyed_world expired_data) + 2) + n * 1000\<bar>
                          \<le> 8640000000000000"
    by (simp add: demo_opts_def demo_env_def keyed_world_def)
  from fetchSession_expired_replaced [OF c n k x p t f r] c k x p t f
  show ?thesis by (simp add: demo_opts_def demo_env_def keyed_world_def demo_calendar_def)
qed

text \<open>
  C2 as stated fails: with a window of 8.64e12 seconds configured, \<^verbatim>\<open>fetchSession\<close> on the
  expired session deletes the old entry and then throws a RangeError while building the
  new session; no session is returned.
\<close>

theorem fetchSession_expired_throws:
  "map_sum (\<lambda>(err, w'). (err, keyed w' ''old'')) (\<lambda>(r, w'). map_option sid r)
     (fetchSession demo_env Store huge_opts (keyed_world expired_data))
   = Inl (RangeError, None)"
proof -
  have c: "cookies (keyed_world expired_data) (sessionCookieName huge_opts) = Some ''old''"
    by (simp add: keyed_world_def huge_opts_def)
  have n: "''old'' \<noteq> []" by simp
  have k: "keyed (keyed_world expired_data) ''old'' = Some expired_data"
    by (simp add: keyed_world_def)
  have v: "Session_sessionValid demo_env (JObj expired_data) (keyed_world expired_data)
             = (False, (keyed_world expired_data)\<lparr>ticks := Suc (ticks (keyed_world expired_data))\<rparr>)"
    by (rule sessionValid_past [where x = "''1970-01-01T00:00:01.000Z''" and t = 1000])
      (simp_all add: expired_data_def js_get_def demo_env_def demo_calendar_def keyed_world_def)
  show ?thesis
    unfolding fetchSession_keyed_loaded [OF c n k v]
    by (simp add: createSession_fresh_keyed fetched_error expire_value_eq huge_opts_def
        Store_deleteSession_def demo_env_def keyed_world_def)
qed





lemma demo_payload:
  "CookieStore_getSessionFromCookie demo_env ''key'' ''session_data''
     (cookie_world (''key'' @ JSON_stringify demo_data)) = JObj demo_data"
proof (rule getSessionFromCookie_payload)
  show "cookies (cookie_world (''key'' @ JSON_stringify demo_data)) ''session_data''
          = Some (''key'' @ JSON_stringify demo_data)"
    by (simp add: cookie_world_def)
  show "''key'' @ JSON_stringify demo_data \<noteq> []" by simp
  show "decryptCryptoJSAES demo_env (''key'' @ JSON_stringify demo_data) ''key''
          = Some (JSON_stringify demo_data)"
    by (simp add: demo_env_def)
  show "JSON_parse (JSON_stringify demo_data) = Some (JObj demo_data)"
    using demo_data_safe by (rule JSON_roundtrip)
qed

text \<open>
  C8 on the code: with a cookie store and a payload cookie that holds a valid session
  (the serialised \<open>demo_data\<close> under the demo cipher), \<^verbatim>\<open>fetchSession\<close> sets the cookie
  \<^verbatim>\<open>session\<close>, to the empty identifier. The handler \<^verbatim>\<open>createSession\<close> and the rotation in
  \<^verbatim>\<open>storeState\<close> make this write for keyed stores only.
\<close>

theorem fetchSession_cookie_store_sets_sid_cookie:
  "\<exists>s w'. fetchSession demo_env demo_cookie_store demo_opts
             (cookie_world (''key'' @ JSON_stringify demo_data))
             = Inr (Some s, w')
         \<and> sid s = [] \<and> trace w' = [CookieSet ''session'' []]
         \<and> cookies w' ''session'' = Some []"
proof -
  have v: "Session_sessionValid demo_env (JObj demo_data)
             (cookie_world (''key'' @ JSON_stringify demo_data))
           = (True, cookie_world (''key'' @ JSON_stringify demo_data))"
    by (rule sessionValid_null) (simp add: demo_data_def js_get_def)
  show ?thesis
    unfolding demo_cookie_store_def fetchSession_cookie_loaded [OF demo_payload v]
    by (simp add: reupSession_eq fetched_eq expire_value_eq demo_opts_def demo_env_def
        cookies_set_def cookie_world_def)
qed

section \<open>Successive requests\<close>

lemma js_put_expire_null:
  assumes "js_get d ''_expire'' = JNull"
  shows "js_put ''_expire'' JNull d = d"
proof -
  from assms have "map_of d ''_expire'' = Some JNull"
    by (auto simp: js_get_def split: option.splits if_splits)
  then show ?thesis by (simp add: js_put_def update_triv)
qed

lemma js_put_accessed_twice:
  "js_put ''_accessed'' x (js_put ''_accessed'' y d) = js_put ''_accessed'' x d"
  by (simp add: js_put_def)

lemma json_safe_stamp:
  assumes "json_safe (JObj d)"
  shows "json_safe (JObj (js_put ''_accessed'' (JStr x) d))"
  using json_safe_update [OF assms, of "JStr x" "''_accessed''"] by (simp add: js_put_def)

lemma fetch_null_no_window:
  assumes nowindow: "expireAfterSeconds opts = None \<or> expireAfterSeconds opts = Some 0"
    and loaded:
      "(st = Store \<and> cookies w (sessionCookieName opts) = Some sid0 \<and> sid0 \<noteq> []
          \<and> keyed w sid0 = Some d)
       \<or> (is_CookieStore st \<and> sid0 = []
          \<and> CookieStore_getSessionFromCookie e (encryptionKey st) (sessionDataCookieName st) w = JObj d)"
    and null: "js_get d ''_expire'' = JNull"
  shows "fetchSession e st opts w =
           Inr (Some \<lparr>sid = sid0,
                       data = js_put ''_accessed'' (JStr (toISOString e (clock e (ticks w)))) d\<rparr>,
                cookies_set (sessionCookieName opts) sid0 (w\<lparr>ticks := Suc (ticks w)\<rparr>))"
proof -
  have v: "Session_sessionValid e (JObj d) w = (True, w)"
    using null by (rule sessionValid_null)
  show ?thesis
    unfolding fetchSession_valid [OF loaded v]
    by (simp add: reupSession_eq expire_value_none [OF nowindow] fetched_eq
        js_put_expire_null [OF null])
qed

text \<open>One request: what the fetch returns, and that the next request finds the same.\<close>

lemma request_null_no_window:
  assumes nowindow: "expireAfterSeconds opts = None \<or> expireAfterSeconds opts = Some 0"
    and loaded:
      "(st = Store \<and> cookies w (sessionCookieName opts) = Some sid0 \<and> sid0 \<noteq> []
          \<and> keyed w sid0 = Some d)
       \<or> (is_CookieStore st \<and> sid0 = []
          \<and> CookieStore_getSessionFromCookie e (encryptionKey st) (sessionDataCookieName st) w = JObj d
          \<and> json_safe (JObj d)
          \<and> (\<forall>p. decryptCryptoJSAES e (encryptCryptoJSAES e p (encryptionKey st)) (encryptionKey st)
                   = Some p)
          \<and> (\<forall>p. encryptCryptoJSAES e p (encryptionKey st) \<noteq> []))"
    and null: "js_get d ''_expire'' = JNull"
    and keep: "\<not> truthy (js_get d ''_delete'')"
  shows "\<exists>w1 w2.
           fetchSession e st opts w =
             Inr (Some \<lparr>sid = sid0,
                         data = js_put ''_accessed'' (JStr (toISOString e (clock e (ticks w)))) d\<rparr>, w1)
           \<and> storeState e st opts
                (Some \<lparr>sid = sid0,
                        data = js_put ''_accessed'' (JStr (toISOString e (clock e (ticks w)))) d\<rparr>)
                False w1 = Inr w2
           \<and> ticks w2 = Suc (ticks w)
           \<and> ((st = Store \<and> cookies w2 (sessionCookieName opts) = Some sid0 \<and> sid0 \<noteq> []
                 \<and> keyed w2 sid0
                     = Some (js_put ''_accessed'' (JStr (toISOString e (clock e (ticks w)))) d))
              \<or> (is_CookieStore st \<and> sid0 = []
                 \<and> CookieStore_getSessionFromCookie e (encryptionKey st) (sessionDataCookieName st) w2
                     = JObj (js_put ''_accessed'' (JStr (toISOString e (clock e (ticks w)))) d)
                 \<and> json_safe (JObj (js_put ''_accessed'' (JStr (toISOString e (clock e (ticks w)))) d))
                 \<and> (\<forall>p. decryptCryptoJSAES e (encryptCryptoJSAES e p (encryptionKey st)) (encryptionKey st)
                          = Some p)
                 \<and> (\<forall>p. encryptCryptoJSAES e p (encryptionKey st) \<noteq> [])))"
proof -
  let ?d1 = "js_put ''_accessed'' (JStr (toISOString e (clock e (ticks w)))) d"
  let ?s1 = "\<lparr>sid = sid0, data = ?d1\<rparr>"
  let ?w1 = "cookies_set (sessionCookieName opts) sid0 (w\<lparr>ticks := Suc (ticks w)\<rparr>)"
  have l: "(st = Store \<and> cookies w (sessionCookieName opts) = Some sid0 \<and> sid0 \<noteq> []
              \<and> keyed w sid0 = Some d)
           \<or> (is_CookieStore st \<and> sid0 = []
              \<and> CookieStore_getSessionFromCookie e (encryptionKey st) (sessionDataCookieName st) w = JObj d)"
    using loaded by blast
  have f: "fetchSession e st opts w = Inr (Some ?s1, ?w1)"
    using nowindow l null by (rule fetch_null_no_window)
  have k1: "\<not> truthy (js_get ?d1 ''_delete'')"
    using keep by (simp add: js_get_put_other)
  from loaded show ?thesis
  proof
    assume a: "st = Store \<and> cookies w (sessionCookieName opts) = Some sid0 \<and> sid0 \<noteq> []
          \<and> keyed w sid0 = Some d"
    let ?w2 = "Store_persistSessionData sid0 ?d1 ?w1"
    have s: "storeState e st opts (Some ?s1) False ?w1 = Inr ?w2"
      using a k1 by (simp add: storeState_keyed_plain Let_def)
    have t: "ticks ?w2 = Suc (ticks w)" by (simp add: world_ops)
    have i: "st = Store \<and> cookies ?w2 (sessionCookieName opts) = Some sid0 \<and> sid0 \<noteq> []
               \<and> keyed ?w2 sid0 = Some ?d1"
      using a by (simp add: world_ops)
    from f s t i show ?thesis by blast
  next
    assume c: "is_CookieStore st \<and> sid0 = []
          \<and> CookieStore_getSessionFromCookie e (encryptionKey st) (sessionDataCookieName st) w = JObj d
          \<and> json_safe (JObj d)
          \<and> (\<forall>p. decryptCryptoJSAES e (encryptCryptoJSAES e p (encryptionKey st)) (encryptionKey st)
                   = Some p)
          \<and> (\<forall>p. encryptCryptoJSAES e p (encryptionKey st) \<noteq> [])"
    then obtain key cname where st: "st = CookieStore key cname" by (cases st) auto
    let ?w2 = "CookieStore_persistSessionData e key cname ?d1 ?w1"
    have s: "storeState e st opts (Some ?s1) False ?w1 = Inr ?w2"
      using k1 by (simp add: st storeState_cookie Let_def)
    have t: "ticks ?w2 = Suc (ticks w)" by (simp add: world_ops)
    from c have safe: "json_safe (JObj ?d1)" by (blast intro: json_safe_stamp)
    from c st have ci: "decryptCryptoJSAES e (encryptCryptoJSAES e (JSON_stringify ?d1) key) key
                          = Some (JSON_stringify ?d1)"
      and ne: "encryptCryptoJSAES e (JSON_stringify ?d1) key \<noteq> []"
      by simp_all
    have g: "CookieStore_getSessionFromCookie e key cname ?w2 = JObj ?d1"
    proof (rule getSessionFromCookie_payload)
      show "cookies ?w2 cname = Some (encryptCryptoJSAES e (JSON_stringify ?d1) key)"
        by (simp add: CookieStore_persistSessionData_def cookies_set_def)
      show "encryptCryptoJSAES e (JSON_stringify ?d1) key \<noteq> []" by (rule ne)
      show "decryptCryptoJSAES e (encryptCryptoJSAES e (JSON_stringify ?d1) key) key
              = Some (JSON_stringify ?d1)"
        by (rule ci)
      show "JSON_parse (JSON_stringify ?d1) = Some (JObj ?d1)"
        using safe by (rule JSON_roundtrip)
    qed
    from c st g safe
    have i: "is_CookieStore st \<and> sid0 = []
          \<and> CookieStore_getSessionFromCookie e (encryptionKey st) (sessionDataCookieName st) ?w2
              = JObj ?d1
          \<and> json_safe (JObj ?d1)
          \<and> (\<forall>p. decryptCryptoJSAES e (encryptCryptoJSAES e p (encryptionKey st)) (encryptionKey st)
                   = Some p)
          \<and> (\<forall>p. encryptCryptoJSAES e p (encryptionKey st) \<noteq> [])"
      by simp
    from f s t i show ?thesis by blast
  qed
qed

lemma map_upt_Suc_shift: "map f [0..<Suc n] = f 0 # map (\<lambda>i. f (Suc i)) [0..<n]"
  by (simp only: upt_conv_Cons [of 0 "Suc n"] map_Suc_upt [symmetric]) simp

text \<open>
  C9, as the code has it: when no window is configured (\<^verbatim>\<open>expireAfterSeconds\<close> is \<^verbatim>\<open>null\<close> or
  0) and the stored session has \<^verbatim>\<open>_expire = null\<close> and no \<^verbatim>\<open>_delete\<close> mark, then over any
  number of successive requests (\<^verbatim>\<open>fetchSession\<close>, then \<^verbatim>\<open>storeState\<close>), whatever the clock
  reads, every fetch returns the session under the same identifier, with \<^verbatim>\<open>_accessed\<close>
  stamped and everything else, the \<^verbatim>\<open>null\<close> of \<^verbatim>\<open>_expire\<close> included, as it was stored: none
  replaces it. For a cookie store the data is taken to be data that JSON gives back
  unchanged, under a cipher that decrypts what it encrypted and never encrypts to the
  empty string.
\<close>

theorem null_expire_never_expires:
  assumes nowindow: "expireAfterSeconds opts = None \<or> expireAfterSeconds opts = Some 0"
    and loaded:
      "(st = Store \<and> cookies w (sessionCookieName opts) = Some sid0 \<and> sid0 \<noteq> []
          \<and> keyed w sid0 = Some d)
       \<or> (is_CookieStore st \<and> sid0 = []
          \<and> CookieStore_getSessionFromCookie e (encryptionKey st) (sessionDataCookieName st) w = JObj d
          \<and> json_safe (JObj d)
          \<and> (\<forall>p. decryptCryptoJSAES e (encryptCryptoJSAES e p (encryptionKey st)) (encryptionKey st)
                   = Some p)
          \<and> (\<forall>p. encryptCryptoJSAES e p (encryptionKey st) \<noteq> []))"
    and null: "js_get d ''_expire'' = JNull"
    and keep: "\<not> truthy (js_get d ''_delete'')"
  shows "request_times e st opts n w =
           map (\<lambda>i. Inr (Some \<lparr>sid = sid0,
                                 data = js_put ''_accessed''
                                          (JStr (toISOString e (clock e (ticks w + i)))) d\<rparr>))
             [0..<n]"
  using loaded null keep
proof (induction n arbitrary: w d)
  case 0
  show ?case by simp
next
  case (Suc n)
  let ?d1 = "js_put ''_accessed'' (JStr (toISOString e (clock e (ticks w)))) d"
  from request_null_no_window [OF nowindow Suc.prems]
  obtain w1 w2
    where f: "fetchSession e st opts w = Inr (Some \<lparr>sid = sid0, data = ?d1\<rparr>, w1)"
      and s: "storeState e st opts (Some \<lparr>sid = sid0, data = ?d1\<rparr>) False w1 = Inr w2"
      and t: "ticks w2 = Suc (ticks w)"
      and inv: "(st = Store \<and> cookies w2 (sessionCookieName opts) = Some sid0 \<and> sid0 \<noteq> []
                  \<and> keyed w2 sid0 = Some ?d1)
               \<or> (is_CookieStore st \<and> sid0 = []
                  \<and> CookieStore_getSessionFromCookie e (encryptionKey st) (sessionDataCookieName st) w2
                      = JObj ?d1
                  \<and> json_safe (JObj ?d1)
                  \<and> (\<forall>p. decryptCryptoJSAES e (encryptCryptoJSAES e p (encryptionKey st))
                            (encryptionKey st) = Some p)
                  \<and> (\<forall>p. encryptCryptoJSAES e p (encryptionKey st) \<noteq> []))"
    by blast
  have n1: "js_get ?d1 ''_expire'' = JNull"
    using Suc.prems(2) by (simp add: js_get_put_other)
  have k1: "\<not> truthy (js_get ?d1 ''_delete'')"
    using Suc.prems(3) by (simp add: js_get_put_other)
  have rest: "request_times e st opts n w2 =
           map (\<lambda>i. Inr (Some \<lparr>sid = sid0,
                                 data = js_put ''_accessed''
                                          (JStr (toISOString e (clock e (ticks w + Suc i)))) d\<rparr>))
             [0..<n]"
    using Suc.IH [OF inv n1 k1] by (simp add: t js_put_accessed_twice)
  show ?case
    unfolding map_upt_Suc_shift
    by (simp add: f s rest)
qed

theorem null_expire_never_expires_witness:
  "(expireAfterSeconds plain_opts = None \<or> expireAfterSeconds plain_opts = Some 0)
   \<and> cookies (keyed_world demo_data) (sessionCookieName plain_opts) = Some ''old''
   \<and> keyed (keyed_world demo_data) ''old'' = Some demo_data
   \<and> js_get demo_data ''_expire'' = JNull
   \<and> \<not> truthy (js_get demo_data ''_delete'')
   \<and> request_times demo_env Store plain_opts 3 (keyed_world demo_data) =
       map (\<lambda>i. Inr (Some \<lparr>sid = ''old'',
                             data = js_put ''_accessed''
                                      (JStr (toISOString demo_env
                                          (clock demo_env (ticks (keyed_world demo_data) + i))))
                                      demo_data\<rparr>))
         [0..<3]"
proof -
  have o: "expireAfterSeconds plain_opts = None \<or> expireAfterSeconds plain_opts = Some 0"
    by (simp add: plain_opts_def)
  have c: "cookies (keyed_world demo_data) (sessionCookieName plain_opts) = Some ''old''"
    by (simp add: keyed_world_def plain_opts_def)
  have k: "keyed (keyed_world demo_data) ''old'' = Some demo_data"
    by (simp add: keyed_world_def)
  have x: "js_get demo_data ''_expire'' = JNull"
    by (simp add: demo_data_def js_get_def)
  have y: "\<not> truthy (js_get demo_data ''_delete'')"
    by (simp add: demo_data_def js_get_def)
  have l: "(Store = Store \<and> cookies (keyed_world demo_data) (sessionCookieName plain_opts) = Some ''old''
              \<and> ''old'' \<noteq> [] \<and> keyed (keyed_world demo_data) ''old'' = Some demo_data)
           \<or> (is_CookieStore Store \<and> ''old'' = []
              \<and> CookieStore_getSessionFromCookie demo_env (encryptionKey Store)
                    (sessionDataCookieName Store) (keyed_world demo_data) = JObj demo_data
              \<and> json_safe (JObj demo_data)
              \<and> (\<forall>p. decryptCryptoJSAES demo_env
                        (encryptCryptoJSAES demo_env p (encryptionKey Store)) (encryptionKey Store)
                      = Some p)
              \<and> (\<forall>p. encryptCryptoJSAES demo_env p (encryptionKey Store) \<noteq> []))"
    using c k by simp
  from null_expire_never_expires [OF o l x y, of 3] o c k x y show ?thesis by blast
qed

lemma demo_data_null: "js_get demo_data ''_expire'' = JNull"
  by (simp add: demo_data_def js_get_def)

text \<open>
  C9 as stated fails: with a window of one second configured, the session stored with
  \<^verbatim>\<open>_expire = null\<close> is returned by the first request, whose \<^verbatim>\<open>storeState\<close> persists the
  renewed \<^verbatim>\<open>_expire\<close>; at the second request, two seconds on, it is expired, and the fetch
  returns a new session under a new identifier.
\<close>

theorem null_expire_then_expires:
  "js_get demo_data ''_expire'' = JNull
   \<and> map (map_sum id (map_option sid))
       (request_times demo_env Store short_opts 2 (keyed_world demo_data))
     = [Inr (Some ''old''), Inr (Some ''id'')]"
proof -
  let ?d1 = "js_put ''_accessed'' (JStr ''1970-01-01T00:00:06.000Z'')
               (js_put ''_expire'' (JStr ''1970-01-01T00:00:06.000Z'') demo_data)"
  let ?w1 = "cookies_set ''session'' ''old'' ((keyed_world demo_data)\<lparr>ticks := 2\<rparr>)"
  let ?w2 = "Store_persistSessionData ''old'' ?d1 ?w1"
  have c: "cookies (keyed_world demo_data) (sessionCookieName short_opts) = Some ''old''"
    by (simp add: keyed_world_def short_opts_def)
  have n: "''old'' \<noteq> []" by simp
  have k: "keyed (keyed_world demo_data) ''old'' = Some demo_data"
    by (simp add: keyed_world_def)
  have v: "Session_sessionValid demo_env (JObj demo_data) (keyed_world demo_data)
             = (True, keyed_world demo_data)"
    using demo_data_null by (rule sessionValid_null)
  have f1: "fetchSession demo_env Store short_opts (keyed_world demo_data)
              = Inr (Some \<lparr>sid = ''old'', data = ?d1\<rparr>, ?w1)"
    unfolding fetchSession_keyed_loaded [OF c n k v]
    by (simp add: reupSession_eq fetched_eq expire_value_eq short_opts_def demo_env_def
        demo_calendar_def keyed_world_def cookies_set_def)
  have s1: "storeState demo_env Store short_opts (Some \<lparr>sid = ''old'', data = ?d1\<rparr>) False ?w1
              = Inr ?w2"
    by (simp add: storeState_keyed_plain Let_def demo_data_def js_put_def js_get_def)
  have c2: "cookies ?w2 (sessionCookieName short_opts) = Some ''old''"
    by (simp add: world_ops short_opts_def)
  have k2: "keyed ?w2 ''old'' = Some ?d1"
    by (simp add: world_ops)
  have v2: "Session_sessionValid demo_env (JObj ?d1) ?w2 = (False, ?w2\<lparr>ticks := Suc (ticks ?w2)\<rparr>)"
    by (rule sessionValid_past [where x = "''1970-01-01T00:00:06.000Z''" and t = 6000])
      (simp_all add: demo_data_def js_put_def js_get_def demo_env_def demo_calendar_def
        world_ops keyed_world_def)
  have f2: "map_sum id (\<lambda>(r, w'). map_option sid r) (fetchSession demo_env Store short_opts ?w2)
              = Inr (Some ''id'')"
    unfolding fetchSession_keyed_loaded [OF c2 n k2 v2]
    by (simp add: createSession_fresh_keyed fetched_eq expire_value_eq short_opts_def
        demo_env_def world_ops keyed_world_def)
  then obtain s2 w3 where f2': "fetchSession demo_env Store short_opts ?w2 = Inr (Some s2, w3)"
    and i2: "sid s2 = ''id''"
    by (cases "fetchSession demo_env Store short_opts ?w2") (auto split: prod.splits)
  obtain w4 where s2: "storeState demo_env Store short_opts (Some s2) False w3 = Inr w4"
    by (simp add: storeState_keyed_plain Let_def)
  have "request_times demo_env Store short_opts (Suc (Suc 0)) (keyed_world demo_data)
          = [Inr (Some \<lparr>sid = ''old'', data = ?d1\<rparr>), Inr (Some s2)]"
    by (simp add: f1 s1 f2' s2)
  with i2 demo_data_null show ?thesis by (simp add: numeral_2_eq_2)
qed

section \<open>The cookie store's round trip\<close>







end
